theory Spec2Isabelle
  imports Main "HOL-Library.Word"
begin

section \<open>The tab-endpoint actor of dom/ipc/BrowserChild.cpp\<close>

text \<open>
  A shallow embedding of the control plane of \<^verbatim>\<open>BrowserChild\<close>: pointer-move and
  wheel coalescing, the pending-docshell blockers, the render-epoch check, and the
  two-pass delete runnable. Member functions take the actor (a record of the
  members they read and write) and return it updated. Calls into collaborators
  (content dispatch, the docshell, the widget, the IPC channel, the refresh
  observer) are appended, in program order, to the member \<open>effects\<close>.
\<close>

subsection \<open>Events\<close>

datatype EventMessage =
    eMouseMove | eMouseDown | eMouseUp | eMouseEnterIntoWidget | eMouseExitFromWidget
  | eWheel | eWheelOperationStart | eWheelOperationEnd

text \<open>
  The identifiers are the integers the code passes: \<^verbatim>\<open>uint64_t\<close> input-block ids,
  \<^verbatim>\<open>uint32_t\<close> pointer ids, and the 64-bit values wrapped by
  \<^verbatim>\<open>LayersObserverEpoch\<close>, \<^verbatim>\<open>LayersId\<close> and \<^verbatim>\<open>TabId\<close>. A guid is kept opaque.
  Positions and time stamps are integers (device pixels, clock ticks).
\<close>

type_synonym ScrollableLayerGuid = nat
type_synonym InputBlockId = "64 word"
type_synonym PointerId = "32 word"
type_synonym LayersObserverEpoch = "64 word"
type_synonym LayersId = "64 word"
type_synonym TabId = "64 word"

record WidgetMouseEvent =
  mMessage :: EventMessage
  pointerId :: PointerId
  mRefPoint :: "int \<times> int"
  mTimeStamp :: int
  mModifiers :: "16 word"
  mButtons :: "16 word"
  mHandledByAPZ :: bool

record WidgetWheelEvent =
  wMessage :: EventMessage
  wTimeStamp :: int
  wDelta :: "int \<times> int"
  wCompatKey :: nat
  wHandledByAPZ :: bool
  wCanTriggerSwipe :: bool
  wTriggersSwipe :: bool

subsection \<open>Collaborator calls\<close>

datatype RunnablePriority = PRIORITY_NORMAL | PRIORITY_INPUT

datatype effect =
    StartObserver
  | RemoveObserver
  | SendSetTargetAPZCNotification InputBlockId
  | DispatchMouseEvent WidgetMouseEvent ScrollableLayerGuid InputBlockId
  | ProcessMouseEvent InputBlockId
  | DispatchWheelEventToContent WidgetWheelEvent ScrollableLayerGuid InputBlockId
  | SendRespondStartSwipeEvent InputBlockId bool
  | ProcessWheelEvent InputBlockId
  | DocShellSetIsActive bool
  | MaybeStartPaintWhileInterruptingJS
  | ClearPaintWhileInterruptingJS LayersObserverEpoch
  | LayerManagerSetLayersObserverEpoch LayersObserverEpoch
  | SendPaintWhileInterruptingJSNoOp LayersObserverEpoch
  | PresShellSetIsActive bool
  | SchedulePaint
  | PaintNowIfNeeded
  | PresShellPaint
  | ClearCachedResources
  | PuppetWidgetShow bool
  | PuppetWidgetDestroy
  | BaseWindowDestroy
  | PermissionRequestsDestroy
  | DispatchUnloadEvent
  | RemoveBeforeFirstPaintObserver
  | DisconnectMessageManager
  | CancelNotifyAfterRemotePaint
  | EraseNestedBrowserChild
  | DispatchToCurrentThread RunnablePriority
  | Send_delete

subsection \<open>Coalesced input data\<close>

text \<open>
  Modelled from the spec: the class \<^verbatim>\<open>CoalescedMouseData\<close> (its constructor,
  \<^verbatim>\<open>IsEmpty\<close>, \<^verbatim>\<open>CanCoalesce\<close>, \<^verbatim>\<open>Coalesce\<close>, \<^verbatim>\<open>RetrieveDataFrom\<close> and
  \<^verbatim>\<open>TakeCoalescedEvent\<close>) is declared outside BrowserChild.cpp. The record is the
  "per-pointer-identity record holding the latest mergeable move event plus its
  associated input-block identifier and hit-test guid". A new move is
  "compatible" when it has the "same modifiers/button state class"; merging is
  "replacing position/timestamp", and "the merged record carries the latest
  event's metadata". A record that holds no event is empty and accepts any
  event.
\<close>

record CoalescedMouseData =
  mCoalescedInputEvent :: "WidgetMouseEvent option"
  mGuid :: ScrollableLayerGuid
  mInputBlockId :: InputBlockId

definition NewCoalescedMouseData :: CoalescedMouseData where
  "NewCoalescedMouseData =
     \<lparr>mCoalescedInputEvent = None, mGuid = 0, mInputBlockId = 0\<rparr>"

definition IsEmpty :: "CoalescedMouseData \<Rightarrow> bool" where
  "IsEmpty d = (mCoalescedInputEvent d = None)"

definition compatible :: "WidgetMouseEvent \<Rightarrow> WidgetMouseEvent \<Rightarrow> bool" where
  "compatible a b = (mModifiers a = mModifiers b \<and> mButtons a = mButtons b)"

definition CanCoalesce ::
  "CoalescedMouseData \<Rightarrow> WidgetMouseEvent \<Rightarrow> ScrollableLayerGuid \<Rightarrow> InputBlockId \<Rightarrow> bool" where
  "CanCoalesce d aEvent aGuid aInputBlockId =
     (case mCoalescedInputEvent d of
        None \<Rightarrow> True
      | Some ev \<Rightarrow> compatible ev aEvent)"

definition Coalesce ::
  "CoalescedMouseData \<Rightarrow> WidgetMouseEvent \<Rightarrow> ScrollableLayerGuid \<Rightarrow> InputBlockId
     \<Rightarrow> CoalescedMouseData" where
  "Coalesce d aEvent aGuid aInputBlockId =
     (case mCoalescedInputEvent d of
        None \<Rightarrow>
          \<lparr>mCoalescedInputEvent = Some aEvent, mGuid = aGuid, mInputBlockId = aInputBlockId\<rparr>
      | Some ev \<Rightarrow>
          \<lparr>mCoalescedInputEvent =
             Some (ev\<lparr>mRefPoint := mRefPoint aEvent, mTimeStamp := mTimeStamp aEvent\<rparr>),
           mGuid = aGuid, mInputBlockId = aInputBlockId\<rparr>)"

definition RetrieveDataFrom :: "CoalescedMouseData \<Rightarrow> CoalescedMouseData" where
  "RetrieveDataFrom aSource =
     \<lparr>mCoalescedInputEvent = mCoalescedInputEvent aSource,
      mGuid = mGuid aSource, mInputBlockId = mInputBlockId aSource\<rparr>"

definition TakeCoalescedEvent :: "CoalescedMouseData \<Rightarrow> WidgetMouseEvent option" where
  "TakeCoalescedEvent d = mCoalescedInputEvent d"

text \<open>
  Modelled from the spec: the class \<^verbatim>\<open>CoalescedWheelData\<close> is declared outside
  BrowserChild.cpp. It is the "singleton accumulator" of the pending wheel delta;
  a wheel event carries a "compatibility key" and is "compatible with any
  already-accumulated pending delta" when the keys agree. Merging adds the
  deltas and keeps the latest time stamp, guid and input-block id.
\<close>

record CoalescedWheelData =
  wCoalescedInputEvent :: "WidgetWheelEvent option"
  wGuid :: ScrollableLayerGuid
  wInputBlockId :: InputBlockId

definition NewCoalescedWheelData :: CoalescedWheelData where
  "NewCoalescedWheelData =
     \<lparr>wCoalescedInputEvent = None, wGuid = 0, wInputBlockId = 0\<rparr>"

definition WheelIsEmpty :: "CoalescedWheelData \<Rightarrow> bool" where
  "WheelIsEmpty d = (wCoalescedInputEvent d = None)"

definition WheelCanCoalesce ::
  "CoalescedWheelData \<Rightarrow> WidgetWheelEvent \<Rightarrow> ScrollableLayerGuid \<Rightarrow> InputBlockId \<Rightarrow> bool" where
  "WheelCanCoalesce d aEvent aGuid aInputBlockId =
     (case wCoalescedInputEvent d of
        None \<Rightarrow> True
      | Some ev \<Rightarrow> wCompatKey ev = wCompatKey aEvent)"

definition WheelCoalesce ::
  "CoalescedWheelData \<Rightarrow> WidgetWheelEvent \<Rightarrow> ScrollableLayerGuid \<Rightarrow> InputBlockId
     \<Rightarrow> CoalescedWheelData" where
  "WheelCoalesce d aEvent aGuid aInputBlockId =
     (case wCoalescedInputEvent d of
        None \<Rightarrow>
          \<lparr>wCoalescedInputEvent = Some aEvent, wGuid = aGuid, wInputBlockId = aInputBlockId\<rparr>
      | Some ev \<Rightarrow>
          \<lparr>wCoalescedInputEvent =
             Some (ev\<lparr>wDelta := (fst (wDelta ev) + fst (wDelta aEvent),
                                  snd (wDelta ev) + snd (wDelta aEvent)),
                       wTimeStamp := wTimeStamp aEvent\<rparr>),
           wGuid = aGuid, wInputBlockId = aInputBlockId\<rparr>)"

subsection \<open>The actor\<close>

text \<open>
  \<open>mPuppetWidget\<close> is \<open>None\<close> for a null widget, and otherwise holds whether the
  widget is visible and whether it has a layer manager. \<open>mCoalescedMouseEventFlusher\<close>
  and \<open>mBrowserChildMessageManager\<close> record whether the pointer is non-null,
  \<open>mCompositorOptions\<close> whether the \<^verbatim>\<open>Maybe\<close> holds a value, \<open>inVisibleTabs\<close> whether
  the actor is an entry of \<^verbatim>\<open>sVisibleTabs\<close>. \<open>sBrowserChildren\<close> is the static
  registry (\<open>None\<close> while the table is not allocated), as the list of its entries.
  The members are declared in BrowserChild.h, which is not among the sources;
  the blocker counter, a "non-negative integer" that the code increments and
  decrements, is taken as an unsigned 32-bit integer. A null \<^verbatim>\<open>TimeStamp\<close> is \<open>None\<close>.
\<close>

record PuppetWidget =
  widgetVisible :: bool
  widgetHasLayerManager :: bool

record BrowserChild =
  mUniqueId :: TabId
  mDestroyed :: bool
  mIPCOpen :: bool
  mLayersId :: LayersId
  mLayersObserverEpoch :: LayersObserverEpoch
  mPendingDocShellIsActive :: bool
  mPendingDocShellReceivedMessage :: bool
  mPendingRenderLayers :: bool
  mPendingRenderLayersReceivedMessage :: bool
  mPendingLayersObserverEpoch :: LayersObserverEpoch
  mPendingDocShellBlockers :: "32 word"
  mCoalesceMouseMoveEvents :: bool
  mCoalescedMouseEventFlusher :: bool
  mCoalescedMouseData :: "PointerId \<rightharpoonup> CoalescedMouseData"
  mToBeDispatchedMouseData :: "CoalescedMouseData list"
  mCoalescedWheelData :: CoalescedWheelData
  mLastWheelProcessedTimeFromParent :: "int option"
  mLastWheelProcessingDuration :: int
  mCompositorOptions :: bool
  mPuppetWidget :: "PuppetWidget option"
  mBrowserChildMessageManager :: bool
  inVisibleTabs :: bool
  sBrowserChildren :: "(LayersId \<times> TabId) list option"
  effects :: "effect list"

text \<open>
  What the collaborators answer during one call: whether \<^verbatim>\<open>WebNavigation()\<close> yields
  a docshell and a base window, whether that docshell has a pres shell (and the
  pres shell a root frame and a root view), whether the actor's message manager
  object still has its message manager, whether there is a compositor bridge,
  whether it is safe to run script, whether the process is a record/replay
  middleman with a recording child, whether \<^verbatim>\<open>MOZ_ASSERT\<close> is compiled in (a debug
  build), and whether \<^verbatim>\<open>MOZ_DIAGNOSTIC_ASSERT\<close> is (a debug or pre-release build).
\<close>

record env =
  hasDocShell :: bool
  hasPresShell :: bool
  hasRootFrame :: bool
  hasRootView :: bool
  hasBaseWindow :: bool
  hasMessageManager :: bool
  hasCompositorBridgeChild :: bool
  isSafeToRunScript :: bool
  isMiddlemanWithRecordingChild :: bool
  debugBuild :: bool
  diagnosticAsserts :: bool

definition emit :: "effect \<Rightarrow> BrowserChild \<Rightarrow> BrowserChild" where
  "emit x s = s\<lparr>effects := effects s @ [x]\<rparr>"

subsection \<open>Pointer-move coalescing\<close>

datatype IPCResult = IPC_OK | IPC_FAIL_NO_REASON

text \<open>
  \<^verbatim>\<open>HandleRealMouseButtonEvent\<close>: the event is handed to content through
  \<^verbatim>\<open>DispatchWidgetEventViaAPZ\<close>, framed by the two APZ notifications when the
  event has an input block and was handled by APZ.
\<close>

definition HandleRealMouseButtonEvent ::
  "WidgetMouseEvent \<Rightarrow> ScrollableLayerGuid \<Rightarrow> InputBlockId \<Rightarrow> BrowserChild \<Rightarrow> BrowserChild" where
  "HandleRealMouseButtonEvent aEvent aGuid aInputBlockId s =
     (let viaAPZ = (aInputBlockId \<noteq> 0 \<and> mHandledByAPZ aEvent);
          s1 = (if viaAPZ then emit (SendSetTargetAPZCNotification aInputBlockId) s else s);
          s2 = emit (DispatchMouseEvent aEvent aGuid aInputBlockId) s1
      in if viaAPZ then emit (ProcessMouseEvent aInputBlockId) s2 else s2)"

text \<open>
  The \<^verbatim>\<open>while (mToBeDispatchedMouseData.GetSize() > 0)\<close> loop of
  \<^verbatim>\<open>ProcessPendingCoalescedMouseDataAndDispatchEvents\<close>: the queue is read again
  on every round, the front is popped, and its event (if it has one) dispatched.
  The dispatch is recorded as an effect; content that re-enters the event loop
  during a dispatch is not part of the embedding.
\<close>

definition DispatchFront :: "CoalescedMouseData \<Rightarrow> BrowserChild \<Rightarrow> BrowserChild" where
  "DispatchFront data s =
     (case TakeCoalescedEvent data of
        None \<Rightarrow> s
      | Some event \<Rightarrow> HandleRealMouseButtonEvent event (mGuid data) (mInputBlockId data) s)"

function DispatchLoop :: "BrowserChild \<Rightarrow> BrowserChild" where
  "DispatchLoop s =
     (case mToBeDispatchedMouseData s of
        [] \<Rightarrow> s
      | data # rest \<Rightarrow> DispatchLoop (DispatchFront data (s\<lparr>mToBeDispatchedMouseData := rest\<rparr>)))"
  by pat_completeness auto
termination
  by (relation "measure (\<lambda>s. length (mToBeDispatchedMouseData s))")
     (auto simp: DispatchFront_def HandleRealMouseButtonEvent_def emit_def Let_def
           split: option.splits)

declare DispatchLoop.simps [simp del]

definition ProcessPendingCoalescedMouseDataAndDispatchEvents ::
  "BrowserChild \<Rightarrow> BrowserChild" where
  "ProcessPendingCoalescedMouseDataAndDispatchEvents s =
     (if \<not> mCoalesceMouseMoveEvents s \<or> \<not> mCoalescedMouseEventFlusher s then s
      else
        let s1 = DispatchLoop (emit StartObserver s)
        in if mCoalescedMouseEventFlusher s1 then emit RemoveObserver s1 else s1)"

text \<open>
  \<^verbatim>\<open>FlushAllCoalescedMouseData\<close> walks the hashtable \<open>mCoalescedMouseData\<close> with its
  iterator. The order in which the iterator visits the keys belongs to the
  hashtable, which is declared outside BrowserChild.cpp; it is the argument
  \<open>aIterOrder\<close>, a list of the keys of the table. (\<^verbatim>\<open>RecvRealMouseMoveEvent\<close>
  takes it only to pass it on.) The assertion at the head of the function holds
  at its call site, inside the test of \<open>mCoalesceMouseMoveEvents\<close>.
\<close>

definition FlushOne :: "BrowserChild \<Rightarrow> PointerId \<Rightarrow> BrowserChild" where
  "FlushOne s k =
     (case mCoalescedMouseData s k of
        None \<Rightarrow> s
      | Some data \<Rightarrow>
          if IsEmpty data then s
          else s\<lparr>mToBeDispatchedMouseData :=
                   mToBeDispatchedMouseData s @ [RetrieveDataFrom data]\<rparr>)"

definition FlushAllCoalescedMouseData :: "PointerId list \<Rightarrow> BrowserChild \<Rightarrow> BrowserChild" where
  "FlushAllCoalescedMouseData aIterOrder s =
     (foldl FlushOne s aIterOrder)\<lparr>mCoalescedMouseData := Map.empty\<rparr>"

definition RecvRealMouseButtonEvent ::
  "PointerId list \<Rightarrow> WidgetMouseEvent \<Rightarrow> ScrollableLayerGuid \<Rightarrow> InputBlockId
     \<Rightarrow> BrowserChild \<Rightarrow> IPCResult \<times> BrowserChild" where
  "RecvRealMouseButtonEvent aIterOrder aEvent aGuid aInputBlockId s =
     (if mCoalesceMouseMoveEvents s \<and> mCoalescedMouseEventFlusher s
         \<and> mMessage aEvent \<noteq> eMouseMove
      then
        let s1 = FlushAllCoalescedMouseData aIterOrder s;
            dispatchData = Coalesce NewCoalescedMouseData aEvent aGuid aInputBlockId;
            s2 = s1\<lparr>mToBeDispatchedMouseData := mToBeDispatchedMouseData s1 @ [dispatchData]\<rparr>
        in (IPC_OK, ProcessPendingCoalescedMouseDataAndDispatchEvents s2)
      else (IPC_OK, HandleRealMouseButtonEvent aEvent aGuid aInputBlockId s))"

definition RecvRealMouseMoveEvent ::
  "PointerId list \<Rightarrow> WidgetMouseEvent \<Rightarrow> ScrollableLayerGuid \<Rightarrow> InputBlockId
     \<Rightarrow> BrowserChild \<Rightarrow> IPCResult \<times> BrowserChild" where
  "RecvRealMouseMoveEvent aIterOrder aEvent aGuid aInputBlockId s =
     (if mCoalesceMouseMoveEvents s \<and> mCoalescedMouseEventFlusher s
      then
        let data = (case mCoalescedMouseData s (pointerId aEvent) of
                      None \<Rightarrow> NewCoalescedMouseData
                    | Some d \<Rightarrow> d)
        in if CanCoalesce data aEvent aGuid aInputBlockId
           then
             (IPC_OK,
              emit StartObserver
                (s\<lparr>mCoalescedMouseData :=
                     (mCoalescedMouseData s)
                       (pointerId aEvent \<mapsto> Coalesce data aEvent aGuid aInputBlockId)\<rparr>))
           else
             let s1 = s\<lparr>mToBeDispatchedMouseData :=
                          mToBeDispatchedMouseData s @ [RetrieveDataFrom data]\<rparr>;
                 s2 = s1\<lparr>mCoalescedMouseData :=
                          (mCoalescedMouseData s1)
                            (pointerId aEvent \<mapsto>
                               Coalesce NewCoalescedMouseData aEvent aGuid aInputBlockId)\<rparr>;
                 s3 = ProcessPendingCoalescedMouseDataAndDispatchEvents s2
             in (IPC_OK, emit StartObserver s3)
      else
        case RecvRealMouseButtonEvent aIterOrder aEvent aGuid aInputBlockId s of
          (IPC_OK, s') \<Rightarrow> (IPC_OK, s')
        | (IPC_FAIL_NO_REASON, s') \<Rightarrow> (IPC_FAIL_NO_REASON, s'))"

text \<open>Delivering a sequence of move messages, one call each.\<close>

fun RecvRealMouseMoveEvents ::
  "PointerId list \<Rightarrow> (WidgetMouseEvent \<times> ScrollableLayerGuid \<times> InputBlockId) list
     \<Rightarrow> BrowserChild \<Rightarrow> BrowserChild" where
  "RecvRealMouseMoveEvents aIterOrder [] s = s"
| "RecvRealMouseMoveEvents aIterOrder ((e, g, b) # rest) s =
     RecvRealMouseMoveEvents aIterOrder rest (snd (RecvRealMouseMoveEvent aIterOrder e g b s))"

text \<open>The mouse events handed to content, in order, read off the effects.\<close>

fun mouseDispatch :: "effect \<Rightarrow> (WidgetMouseEvent \<times> ScrollableLayerGuid \<times> InputBlockId) option" where
  "mouseDispatch (DispatchMouseEvent e g b) = Some (e, g, b)"
| "mouseDispatch _ = None"

definition dispatchedMouseEvents ::
  "BrowserChild \<Rightarrow> (WidgetMouseEvent \<times> ScrollableLayerGuid \<times> InputBlockId) list" where
  "dispatchedMouseEvents s = List.map_filter mouseDispatch (effects s)"


text \<open>
  What a queued or pending record will hand to content when it is dispatched
  (nothing when it holds no event), for one record and for a list of records.
\<close>

definition recordEvent ::
  "CoalescedMouseData \<Rightarrow> (WidgetMouseEvent \<times> ScrollableLayerGuid \<times> InputBlockId) option" where
  "recordEvent d = map_option (\<lambda>ev. (ev, mGuid d, mInputBlockId d)) (mCoalescedInputEvent d)"

definition recordEvents ::
  "CoalescedMouseData list \<Rightarrow> (WidgetMouseEvent \<times> ScrollableLayerGuid \<times> InputBlockId) list" where
  "recordEvents ds = List.map_filter recordEvent ds"

subsection \<open>The pending-docshell blockers and the render epoch\<close>

text \<open>
  Modelled from the spec: the macro \<^verbatim>\<open>MOZ_ASSERT\<close> is defined outside the sources.
  A failed assertion is a "fatal assertion in debug builds"; in other builds the
  condition is not checked and the next statement runs, where calling through a
  null pointer is the end of the process as well.
\<close>

datatype failure = AssertionFailed string | NullDereference string

definition AddPendingDocShellBlocker :: "BrowserChild \<Rightarrow> BrowserChild" where
  "AddPendingDocShellBlocker s =
     s\<lparr>mPendingDocShellBlockers := mPendingDocShellBlockers s + 1\<rparr>"

definition InternalSetDocShellIsActive :: "env \<Rightarrow> bool \<Rightarrow> BrowserChild \<Rightarrow> BrowserChild" where
  "InternalSetDocShellIsActive e aIsActive s =
     (if hasDocShell e then emit (DocShellSetIsActive aIsActive) s else s)"

definition RecvSetDocShellIsActive ::
  "env \<Rightarrow> bool \<Rightarrow> BrowserChild \<Rightarrow> IPCResult \<times> BrowserChild" where
  "RecvSetDocShellIsActive e aIsActive s =
     (if mPendingDocShellBlockers s > 0
      then (IPC_OK, s\<lparr>mPendingDocShellReceivedMessage := True,
                       mPendingDocShellIsActive := aIsActive\<rparr>)
      else (IPC_OK, InternalSetDocShellIsActive e aIsActive s))"

definition IsVisible :: "BrowserChild \<Rightarrow> bool" where
  "IsVisible s = (case mPuppetWidget s of None \<Rightarrow> False | Some w \<Rightarrow> widgetVisible w)"

text \<open>
  Modelled from the spec: the class \<^verbatim>\<open>PuppetWidget\<close> is declared outside the
  sources. \<^verbatim>\<open>mPuppetWidget->Show(b)\<close> is how the actor is to "mark the surface
  ... visible" or "mark hidden": the call is recorded, and the widget then
  reports \<open>b\<close> as its visibility.
\<close>

definition PuppetWidget_Show :: "bool \<Rightarrow> BrowserChild \<Rightarrow> BrowserChild" where
  "PuppetWidget_Show b s =
     (case mPuppetWidget s of
        None \<Rightarrow> s
      | Some w \<Rightarrow> emit (PuppetWidgetShow b) (s\<lparr>mPuppetWidget := Some (w\<lparr>widgetVisible := b\<rparr>)\<rparr>))"

definition MakeVisible :: "BrowserChild \<Rightarrow> BrowserChild" where
  "MakeVisible s = (if IsVisible s then s else PuppetWidget_Show True s)"

definition MakeHidden :: "env \<Rightarrow> BrowserChild \<Rightarrow> BrowserChild" where
  "MakeHidden e s =
     (if \<not> IsVisible s then s
      else
        let s1 = (case mPuppetWidget s of
                    None \<Rightarrow> s
                  | Some w \<Rightarrow> if widgetHasLayerManager w then emit ClearCachedResources s else s);
            s2 = (if hasDocShell e \<and> hasPresShell e
                  then emit (PresShellSetIsActive False) s1 else s1)
        in PuppetWidget_Show False s2)"

text \<open>
  The part of \<^verbatim>\<open>RecvRenderLayers\<close> after the epoch has been stored and the layer
  manager told, up to the \<^verbatim>\<open>return\<close>; the scope-exit lambda
  \<^verbatim>\<open>clearPaintWhileInterruptingJS\<close> runs after it on every path.
\<close>

definition RenderLayersBody :: "env \<Rightarrow> bool \<Rightarrow> bool \<Rightarrow> BrowserChild \<Rightarrow> BrowserChild" where
  "RenderLayersBody e aEnabled aForceRepaint s =
     (if aEnabled then
        if \<not> aForceRepaint \<and> IsVisible s \<and> mIPCOpen s
        then emit (SendPaintWhileInterruptingJSNoOp (mLayersObserverEpoch s)) s
        else
          let s1 = MakeVisible (s\<lparr>inVisibleTabs := True\<rparr>)
          in if \<not> hasDocShell e then s1
             else if hasPresShell e then
               let s2 = emit (PresShellSetIsActive True) s1;
                   s3 = (if hasRootFrame e then emit SchedulePaint s2 else s2)
               in if isSafeToRunScript e then emit PaintNowIfNeeded s3
                  else if hasRootView e then emit PresShellPaint s3 else s3
             else s1
      else MakeHidden e (s\<lparr>inVisibleTabs := False\<rparr>))"

definition RecvRenderLayers ::
  "env \<Rightarrow> bool \<Rightarrow> bool \<Rightarrow> LayersObserverEpoch \<Rightarrow> BrowserChild
     \<Rightarrow> failure + IPCResult \<times> BrowserChild" where
  "RecvRenderLayers e aEnabled aForceRepaint aEpoch s =
     (if mPendingDocShellBlockers s > 0
      then Inr (IPC_OK, s\<lparr>mPendingRenderLayersReceivedMessage := True,
                           mPendingRenderLayers := aEnabled,
                           mPendingLayersObserverEpoch := aEpoch\<rparr>)
      else if mLayersObserverEpoch s \<ge> aEpoch then Inr (IPC_OK, s)
      else
        let s1 = s\<lparr>mLayersObserverEpoch := aEpoch\<rparr>;
            s2 = (if aEnabled then emit MaybeStartPaintWhileInterruptingJS s1 else s1)
        in if mCompositorOptions s2 \<and> mPuppetWidget s2 = None
           then Inl (if debugBuild e then AssertionFailed ''mPuppetWidget''
                     else NullDereference ''mPuppetWidget'')
           else
             let s3 = (if mCompositorOptions s2
                       then emit (LayerManagerSetLayersObserverEpoch (mLayersObserverEpoch s2)) s2
                       else s2);
                 s4 = RenderLayersBody e aEnabled aForceRepaint s3
             in Inr (IPC_OK,
                     if aEnabled
                     then emit (ClearPaintWhileInterruptingJS (mLayersObserverEpoch s4)) s4
                     else s4))"

definition RemovePendingDocShellBlocker :: "env \<Rightarrow> BrowserChild \<Rightarrow> failure + BrowserChild" where
  "RemovePendingDocShellBlocker e s =
     (let s1 = s\<lparr>mPendingDocShellBlockers := mPendingDocShellBlockers s - 1\<rparr>;
          s2 = (if mPendingDocShellBlockers s1 = 0 \<and> mPendingDocShellReceivedMessage s1
                then InternalSetDocShellIsActive e (mPendingDocShellIsActive s1)
                       (s1\<lparr>mPendingDocShellReceivedMessage := False\<rparr>)
                else s1)
      in if mPendingDocShellBlockers s2 = 0 \<and> mPendingRenderLayersReceivedMessage s2
         then
           case RecvRenderLayers e (mPendingRenderLayers s2) False
                  (mPendingLayersObserverEpoch s2)
                  (s2\<lparr>mPendingRenderLayersReceivedMessage := False\<rparr>) of
             Inl f \<Rightarrow> Inl f
           | Inr (r, s3) \<Rightarrow> Inr s3
         else Inr s2)"

subsection \<open>Wheel coalescing\<close>

definition DispatchWheelEvent ::
  "WidgetWheelEvent \<Rightarrow> ScrollableLayerGuid \<Rightarrow> InputBlockId \<Rightarrow> BrowserChild \<Rightarrow> BrowserChild" where
  "DispatchWheelEvent aEvent aGuid aInputBlockId s =
     (let viaAPZ = (aInputBlockId \<noteq> 0 \<and> wHandledByAPZ aEvent);
          s1 = (if viaAPZ then emit (SendSetTargetAPZCNotification aInputBlockId) s else s);
          s2 = emit (DispatchWheelEventToContent aEvent aGuid aInputBlockId) s1;
          s3 = (if wCanTriggerSwipe aEvent
                then emit (SendRespondStartSwipeEvent aInputBlockId (wTriggersSwipe aEvent)) s2
                else s2)
      in if viaAPZ then emit (ProcessWheelEvent aInputBlockId) s3 else s3)"

definition MaybeDispatchCoalescedWheelEvent :: "BrowserChild \<Rightarrow> BrowserChild" where
  "MaybeDispatchCoalescedWheelEvent s =
     (case wCoalescedInputEvent (mCoalescedWheelData s) of
        None \<Rightarrow> s
      | Some wheelEvent \<Rightarrow>
          DispatchWheelEvent wheelEvent (wGuid (mCoalescedWheelData s))
            (wInputBlockId (mCoalescedWheelData s))
            (s\<lparr>mCoalescedWheelData :=
                 (mCoalescedWheelData s)\<lparr>wCoalescedInputEvent := None\<rparr>\<rparr>))"

text \<open>
  \<open>aNextIsWheel\<close> is what \<^verbatim>\<open>PeekMessages\<close> finds: whether the first message waiting
  on the channel is a \<^verbatim>\<open>Msg_MouseWheelEvent\<close>. The function returns its result, the
  flag \<^verbatim>\<open>*aIsNextWheelEvent\<close> (\<open>aIsNextIn\<close> on entry) and the actor.
\<close>

definition MaybeCoalesceWheelEvent ::
  "bool \<Rightarrow> WidgetWheelEvent \<Rightarrow> ScrollableLayerGuid \<Rightarrow> InputBlockId \<Rightarrow> bool
     \<Rightarrow> BrowserChild \<Rightarrow> bool \<times> bool \<times> BrowserChild" where
  "MaybeCoalesceWheelEvent aNextIsWheel aEvent aGuid aInputBlockId aIsNextIn s =
     (if wMessage aEvent = eWheel then
        let isNext = (if aNextIsWheel then True else aIsNextIn)
        in if (case mLastWheelProcessedTimeFromParent s of
                 None \<Rightarrow> False
               | Some t \<Rightarrow>
                   isNext \<and> wTimeStamp aEvent < t + mLastWheelProcessingDuration s
                   \<and> (WheelIsEmpty (mCoalescedWheelData s)
                        \<or> WheelCanCoalesce (mCoalescedWheelData s) aEvent aGuid aInputBlockId))
           then (True, isNext,
                 s\<lparr>mCoalescedWheelData :=
                     WheelCoalesce (mCoalescedWheelData s) aEvent aGuid aInputBlockId\<rparr>)
           else (False, isNext, s)
      else (False, aIsNextIn, s))"

text \<open>
  \<open>aNowBefore\<close> and \<open>aNowAfter\<close> are the two readings of \<^verbatim>\<open>TimeStamp::Now()\<close>, taken
  before and after the dispatch.
\<close>

definition RecvMouseWheelEvent ::
  "bool \<Rightarrow> int \<Rightarrow> int \<Rightarrow> WidgetWheelEvent \<Rightarrow> ScrollableLayerGuid \<Rightarrow> InputBlockId
     \<Rightarrow> BrowserChild \<Rightarrow> IPCResult \<times> BrowserChild" where
  "RecvMouseWheelEvent aNextIsWheel aNowBefore aNowAfter aEvent aGuid aInputBlockId s =
     (case MaybeCoalesceWheelEvent aNextIsWheel aEvent aGuid aInputBlockId False s of
        (True, isNextWheelEvent, s1) \<Rightarrow> (IPC_OK, s1)
      | (False, isNextWheelEvent, s1) \<Rightarrow>
          if isNextWheelEvent then
            let s2 = s1\<lparr>mLastWheelProcessedTimeFromParent := Some (wTimeStamp aEvent)\<rparr>;
                s3 = MaybeDispatchCoalescedWheelEvent s2;
                s4 = DispatchWheelEvent aEvent aGuid aInputBlockId s3;
                s5 = s4\<lparr>mLastWheelProcessingDuration := aNowAfter - aNowBefore\<rparr>
            in (IPC_OK,
                s5\<lparr>mLastWheelProcessedTimeFromParent :=
                     map_option (\<lambda>t. t + mLastWheelProcessingDuration s5)
                       (mLastWheelProcessedTimeFromParent s5)\<rparr>)
          else
            let s2 = s1\<lparr>mLastWheelProcessedTimeFromParent := None\<rparr>;
                s3 = MaybeDispatchCoalescedWheelEvent s2
            in (IPC_OK, DispatchWheelEvent aEvent aGuid aInputBlockId s3))"

text \<open>The wheel events handed to content, in order, read off the effects.\<close>

fun wheelDispatch :: "effect \<Rightarrow> (WidgetWheelEvent \<times> ScrollableLayerGuid \<times> InputBlockId) option" where
  "wheelDispatch (DispatchWheelEventToContent e g b) = Some (e, g, b)"
| "wheelDispatch _ = None"

definition dispatchedWheelEvents ::
  "BrowserChild \<Rightarrow> (WidgetWheelEvent \<times> ScrollableLayerGuid \<times> InputBlockId) list" where
  "dispatchedWheelEvents s = List.map_filter wheelDispatch (effects s)"


subsection \<open>The registry of actors by layers id\<close>

text \<open>
  \<^verbatim>\<open>sBrowserChildren\<close> is read and written only inside a
  \<^verbatim>\<open>StaticMutexAutoLock lock(sBrowserChildrenMutex)\<close> block; each such block is one
  function here.
\<close>

definition GetFrom :: "LayersId \<Rightarrow> BrowserChild \<Rightarrow> TabId option" where
  "GetFrom aLayersId s =
     (case sBrowserChildren s of
        None \<Rightarrow> None
      | Some table \<Rightarrow> map_of table aLayersId)"

definition RegistryRemove :: "LayersId \<Rightarrow> (LayersId \<times> TabId) list \<Rightarrow> (LayersId \<times> TabId) list" where
  "RegistryRemove k table = filter (\<lambda>entry. fst entry \<noteq> k) table"

subsection \<open>Teardown\<close>

text \<open>
  \<^verbatim>\<open>DestroyWindow\<close>, for the members of the record: the flusher is released, the
  queue of data to dispatch is emptied without dispatching, the widget is
  destroyed, and the registry entry is removed under the mutex (the table is
  freed when it becomes empty). \<^verbatim>\<open>MOZ_ASSERT\<close> aborts in a debug build; in
  other builds the statement after it runs.
\<close>

definition DestroyWindow :: "env \<Rightarrow> BrowserChild \<Rightarrow> failure + BrowserChild" where
  "DestroyWindow e s =
     (let s1 = (if mCoalescedMouseEventFlusher s
                then (emit RemoveObserver s)\<lparr>mCoalescedMouseEventFlusher := False\<rparr>
                else s);
          s2 = s1\<lparr>mToBeDispatchedMouseData := []\<rparr>;
          s3 = (if hasBaseWindow e then emit BaseWindowDestroy s2 else s2);
          s4 = (if mPuppetWidget s3 \<noteq> None then emit PuppetWidgetDestroy s3 else s3)
      in if mLayersId s4 \<noteq> 0 then
           case sBrowserChildren s4 of
             None \<Rightarrow> Inl (if debugBuild e then AssertionFailed ''sBrowserChildren''
                           else NullDereference ''sBrowserChildren'')
           | Some table \<Rightarrow>
               let table' = RegistryRemove (mLayersId s4) table
               in Inr (s4\<lparr>sBrowserChildren := (if length table' = 0 then None else Some table'),
                           mLayersId := 0\<rparr>)
         else Inr s4)"

text \<open>
  \<^verbatim>\<open>ActorDestroy\<close>: the channel is closed for the actor and the window is torn
  down; the message manager is disconnected when the actor has its message
  manager object and that object still has a message manager (a missing one
  fails \<^verbatim>\<open>MOZ_DIAGNOSTIC_ASSERT\<close> where that is compiled in, and is skipped
  elsewhere); a pending after-remote-paint notification is cancelled at the
  compositor bridge; and the actor is erased from the map of nested children
  when its tab id is not zero.
\<close>

definition ActorDestroy :: "env \<Rightarrow> BrowserChild \<Rightarrow> failure + BrowserChild" where
  "ActorDestroy e s =
     (case DestroyWindow e (s\<lparr>mIPCOpen := False\<rparr>) of
        Inl f \<Rightarrow> Inl f
      | Inr s1 \<Rightarrow>
          if mBrowserChildMessageManager s1 \<and> diagnosticAsserts e \<and> \<not> hasMessageManager e
          then Inl (AssertionFailed ''mBrowserChildMessageManager->GetMessageManager()'')
          else
            let s2 = (if mBrowserChildMessageManager s1 \<and> hasMessageManager e
                      then emit DisconnectMessageManager s1 else s1);
                s3 = (if hasCompositorBridgeChild e
                      then emit CancelNotifyAfterRemotePaint s2 else s2)
            in Inr (if mUniqueId s3 \<noteq> 0 then emit EraseNestedBrowserChild s3 else s3))"

record DelayedDeleteRunnable =
  mBrowserChild :: bool
  mReadyToDelete :: bool

text \<open>The constructor: the runnable holds its actor and is not yet ready to delete.\<close>

definition DelayedDeleteRunnable_ctor :: DelayedDeleteRunnable where
  "DelayedDeleteRunnable_ctor = \<lparr>mBrowserChild = True, mReadyToDelete = False\<rparr>"

definition GetPriority :: "DelayedDeleteRunnable \<Rightarrow> RunnablePriority" where
  "GetPriority r = (if mReadyToDelete r then PRIORITY_INPUT else PRIORITY_NORMAL)"

text \<open>
  Modelled from the spec: the event queue is outside the sources.
  \<^verbatim>\<open>NS_DispatchToCurrentThread(runnable)\<close> schedules the runnable "into the
  normal-priority delivery queue" or "at elevated (input) priority": the queue
  of the priority that \<^verbatim>\<open>GetPriority\<close> reports when the runnable is put.
\<close>

definition NS_DispatchToCurrentThread :: "DelayedDeleteRunnable \<Rightarrow> BrowserChild \<Rightarrow> BrowserChild" where
  "NS_DispatchToCurrentThread r s = emit (DispatchToCurrentThread (GetPriority r)) s"

definition RecvDestroy ::
  "env \<Rightarrow> BrowserChild \<Rightarrow> failure + IPCResult \<times> BrowserChild \<times> DelayedDeleteRunnable" where
  "RecvDestroy e s =
     (if debugBuild e \<and> mDestroyed s then Inl (AssertionFailed ''mDestroyed == false'')
      else
        let s1 = emit PermissionRequestsDestroy (s\<lparr>mDestroyed := True\<rparr>)
        in if mBrowserChildMessageManager s1 \<and> debugBuild e \<and> \<not> isSafeToRunScript e
           then Inl (AssertionFailed ''nsContentUtils::IsSafeToRunScript()'')
           else
             let s2 = (if mBrowserChildMessageManager s1 then emit DispatchUnloadEvent s1 else s1);
                 s3 = emit RemoveBeforeFirstPaintObserver s2
             in case DestroyWindow e s3 of
                  Inl f \<Rightarrow> Inl f
                | Inr s4 \<Rightarrow>
                    let deleteRunnable = DelayedDeleteRunnable_ctor
                    in Inr (IPC_OK, NS_DispatchToCurrentThread deleteRunnable s4, deleteRunnable))"

text \<open>
  \<^verbatim>\<open>DelayedDeleteRunnable::Run\<close>, on the runnable and the actor it refers to.
\<close>

definition DelayedDeleteRunnable_Run ::
  "env \<Rightarrow> DelayedDeleteRunnable \<Rightarrow> BrowserChild \<Rightarrow> failure + DelayedDeleteRunnable \<times> BrowserChild" where
  "DelayedDeleteRunnable_Run e r s =
     (if debugBuild e \<and> \<not> mBrowserChild r then Inl (AssertionFailed ''mBrowserChild'')
      else if \<not> mReadyToDelete r then
        let r' = r\<lparr>mReadyToDelete := True\<rparr>
        in Inr (r', NS_DispatchToCurrentThread r' s)
      else if \<not> mBrowserChild r then Inl (NullDereference ''mBrowserChild'')
      else
        let s1 = (if mIPCOpen s \<and> \<not> isMiddlemanWithRecordingChild e
                  then emit Send_delete s else s)
        in Inr (r\<lparr>mBrowserChild := False\<rparr>, s1))"

subsection \<open>Inbound messages\<close>

text \<open>
  The messages and calls, other than \<^verbatim>\<open>Destroy\<close>, that can reach the actor as
  separate tasks of the event loop, each with its arguments.
\<close>

datatype inbound =
    RealMouseMoveEvent "PointerId list" WidgetMouseEvent ScrollableLayerGuid InputBlockId
  | RealMouseButtonEvent "PointerId list" WidgetMouseEvent ScrollableLayerGuid InputBlockId
  | MouseWheelEvent bool int int WidgetWheelEvent ScrollableLayerGuid InputBlockId
  | SetDocShellIsActive bool
  | RenderLayers bool bool LayersObserverEpoch
  | AddBlocker
  | RemoveBlocker
  | ChannelClosed

fun receive :: "env \<Rightarrow> inbound \<Rightarrow> BrowserChild \<Rightarrow> failure + BrowserChild" where
  "receive e (RealMouseMoveEvent ks ev g b) s = Inr (snd (RecvRealMouseMoveEvent ks ev g b s))"
| "receive e (RealMouseButtonEvent ks ev g b) s = Inr (snd (RecvRealMouseButtonEvent ks ev g b s))"
| "receive e (MouseWheelEvent nxt t0 t1 ev g b) s = Inr (snd (RecvMouseWheelEvent nxt t0 t1 ev g b s))"
| "receive e (SetDocShellIsActive a) s = Inr (snd (RecvSetDocShellIsActive e a s))"
| "receive e (RenderLayers en force ep) s =
     (case RecvRenderLayers e en force ep s of Inl f \<Rightarrow> Inl f | Inr (r, s') \<Rightarrow> Inr s')"
| "receive e AddBlocker s = Inr (AddPendingDocShellBlocker s)"
| "receive e RemoveBlocker s = RemovePendingDocShellBlocker e s"
| "receive e ChannelClosed s = ActorDestroy e s"

fun deliver :: "env \<Rightarrow> inbound list \<Rightarrow> BrowserChild \<Rightarrow> failure + BrowserChild" where
  "deliver e [] s = Inr s"
| "deliver e (m # ms) s =
     (case receive e m s of Inl f \<Rightarrow> Inl f | Inr s' \<Rightarrow> deliver e ms s')"

text \<open>
  The teardown as the event loop runs it: \<^verbatim>\<open>Destroy\<close> is received; the tasks
  queued ahead of the runnable run (\<open>ahead\<close>); the runnable runs for the first
  time; the tasks queued ahead of its second dispatch run (\<open>between\<close>); the
  runnable runs for the second time.
\<close>

definition teardown ::
  "env \<Rightarrow> inbound list \<Rightarrow> inbound list \<Rightarrow> BrowserChild
     \<Rightarrow> failure + DelayedDeleteRunnable \<times> BrowserChild" where
  "teardown e ahead between s =
     (case RecvDestroy e s of
        Inl f \<Rightarrow> Inl f
      | Inr (res, s1, r0) \<Rightarrow>
          case deliver e ahead s1 of
            Inl f \<Rightarrow> Inl f
          | Inr s2 \<Rightarrow>
              case DelayedDeleteRunnable_Run e r0 s2 of
                Inl f \<Rightarrow> Inl f
              | Inr (r1, s3) \<Rightarrow>
                  case deliver e between s3 of
                    Inl f \<Rightarrow> Inl f
                  | Inr s4 \<Rightarrow> DelayedDeleteRunnable_Run e r1 s4)"

definition channelCloses :: "BrowserChild \<Rightarrow> nat" where
  "channelCloses s = count_list (effects s) Send_delete"

fun threadDispatch :: "effect \<Rightarrow> RunnablePriority option" where
  "threadDispatch (DispatchToCurrentThread p) = Some p"
| "threadDispatch _ = None"

definition dispatchedRunnables :: "BrowserChild \<Rightarrow> RunnablePriority list" where
  "dispatchedRunnables s = List.map_filter threadDispatch (effects s)"


subsection \<open>Construction\<close>

text \<open>
  The member initialisers of the constructor; \<open>aCoalescePref\<close> is the value of the
  preference \<^verbatim>\<open>dom.event.coalesce_mouse_move\<close>. The wheel members start as a
  default-constructed (null) \<^verbatim>\<open>TimeStamp\<close> and \<^verbatim>\<open>TimeDuration\<close>.
\<close>

definition BrowserChild_ctor :: "TabId \<Rightarrow> bool \<Rightarrow> BrowserChild" where
  "BrowserChild_ctor aTabId aCoalescePref =
     \<lparr>mUniqueId = aTabId,
      mDestroyed = False,
      mIPCOpen = False,
      mLayersId = 0,
      mLayersObserverEpoch = 1,
      mPendingDocShellIsActive = False,
      mPendingDocShellReceivedMessage = False,
      mPendingRenderLayers = False,
      mPendingRenderLayersReceivedMessage = False,
      mPendingLayersObserverEpoch = 0,
      mPendingDocShellBlockers = 0,
      mCoalesceMouseMoveEvents = aCoalescePref,
      mCoalescedMouseEventFlusher = aCoalescePref,
      mCoalescedMouseData = Map.empty,
      mToBeDispatchedMouseData = [],
      mCoalescedWheelData = NewCoalescedWheelData,
      mLastWheelProcessedTimeFromParent = None,
      mLastWheelProcessingDuration = 0,
      mCompositorOptions = False,
      mPuppetWidget = None,
      mBrowserChildMessageManager = False,
      inVisibleTabs = False,
      sBrowserChildren = None,
      effects = []\<rparr>"

text \<open>
  An actor after \<^verbatim>\<open>Init\<close> (the widget exists, the channel is open), and the
  answers of the collaborators in an ordinary debug-build content process.
\<close>

definition openActor :: BrowserChild where
  "openActor =
     (BrowserChild_ctor 1 True)
       \<lparr>mIPCOpen := True,
        mPuppetWidget := Some \<lparr>widgetVisible = False, widgetHasLayerManager = False\<rparr>\<rparr>"

definition contentProcess :: env where
  "contentProcess =
     \<lparr>hasDocShell = True, hasPresShell = True, hasRootFrame = True, hasRootView = True,
      hasBaseWindow = True, hasMessageManager = True, hasCompositorBridgeChild = True,
      isSafeToRunScript = True, isMiddlemanWithRecordingChild = False,
      debugBuild = True, diagnosticAsserts = True\<rparr>"

text \<open>An actor with one pending blocker, whose render epoch is 5.\<close>

definition blockedActor :: BrowserChild where
  "blockedActor = openActor\<lparr>mPendingDocShellBlockers := 1, mLayersObserverEpoch := 5\<rparr>"

subsection \<open>Requests held back while blocked\<close>

text \<open>
  The two kinds of message held back while a blocker is pending, and, of a
  sequence of messages,
  the value carried by the latest of each kind.
\<close>

fun isDeferredKind :: "inbound \<Rightarrow> bool" where
  "isDeferredKind (SetDocShellIsActive a) = True"
| "isDeferredKind (RenderLayers en force ep) = True"
| "isDeferredKind _ = False"

fun lastActive :: "inbound list \<Rightarrow> bool option" where
  "lastActive [] = None"
| "lastActive (m # ms) =
     (case lastActive ms of
        Some a \<Rightarrow> Some a
      | None \<Rightarrow> (case m of SetDocShellIsActive a \<Rightarrow> Some a | _ \<Rightarrow> None))"

fun lastRender :: "inbound list \<Rightarrow> (bool \<times> LayersObserverEpoch) option" where
  "lastRender [] = None"
| "lastRender (m # ms) =
     (case lastRender ms of
        Some x \<Rightarrow> Some x
      | None \<Rightarrow> (case m of RenderLayers en force ep \<Rightarrow> Some (en, ep) | _ \<Rightarrow> None))"

text \<open>The open actor with its widget showing.\<close>

definition visibleActor :: BrowserChild where
  "visibleActor =
     openActor\<lparr>mPuppetWidget := Some \<lparr>widgetVisible = True, widgetHasLayerManager = False\<rparr>\<rparr>"

text \<open>
  The open actor after \<^verbatim>\<open>Destroy\<close>, and after the first run of its delete
  runnable.
\<close>

definition destroyedActor :: BrowserChild where
  "destroyedActor =
     openActor\<lparr>mDestroyed := True, mCoalescedMouseEventFlusher := False,
       effects := [PermissionRequestsDestroy, RemoveBeforeFirstPaintObserver, RemoveObserver,
                   BaseWindowDestroy, PuppetWidgetDestroy,
                   DispatchToCurrentThread PRIORITY_NORMAL]\<rparr>"

definition bouncedActor :: BrowserChild where
  "bouncedActor = emit (DispatchToCurrentThread PRIORITY_INPUT) destroyedActor"

text \<open>A plain wheel-delta event, and a pointer move, button press and release.\<close>

definition wheelTick :: WidgetWheelEvent where
  "wheelTick =
     \<lparr>wMessage = eWheel, wTimeStamp = 50, wDelta = (0, 3), wCompatKey = 0,
      wHandledByAPZ = False, wCanTriggerSwipe = False, wTriggersSwipe = False\<rparr>"

definition mouseMoveAt :: "PointerId \<Rightarrow> int \<times> int \<Rightarrow> int \<Rightarrow> WidgetMouseEvent" where
  "mouseMoveAt p pos t =
     \<lparr>mMessage = eMouseMove, pointerId = p, mRefPoint = pos, mTimeStamp = t,
      mModifiers = 0, mButtons = 0, mHandledByAPZ = False\<rparr>"

definition mouseDownAt :: "PointerId \<Rightarrow> int \<times> int \<Rightarrow> int \<Rightarrow> WidgetMouseEvent" where
  "mouseDownAt p pos t =
     \<lparr>mMessage = eMouseDown, pointerId = p, mRefPoint = pos, mTimeStamp = t,
      mModifiers = 0, mButtons = 1, mHandledByAPZ = False\<rparr>"

text \<open>
  The open actor after a move of pointer 1 and then a move of pointer 2 have
  arrived.
\<close>

definition twoPointerMoves :: BrowserChild where
  "twoPointerMoves =
     RecvRealMouseMoveEvents []
       [(mouseMoveAt 1 (3, 3) 10, 0, 0), (mouseMoveAt 2 (5, 5) 20, 0, 0)] openActor"

text \<open>The same process as a record/replay middleman with a recording child.\<close>

definition middlemanProcess :: env where
  "middlemanProcess = contentProcess\<lparr>isMiddlemanWithRecordingChild := True\<rparr>"

subsection \<open>What a message other than Destroy leaves alone\<close>

text \<open>
  Between two states: the destroyed flag is the same, no channel close and no
  runnable dispatch has been added, and the channel has not been reopened.
\<close>

definition quiet :: "BrowserChild \<Rightarrow> BrowserChild \<Rightarrow> bool" where
  "quiet s s' \<longleftrightarrow> mDestroyed s' = mDestroyed s
     \<and> channelCloses s' = channelCloses s
     \<and> dispatchedRunnables s' = dispatchedRunnables s
     \<and> (mIPCOpen s' \<longrightarrow> mIPCOpen s)"

section \<open>Properties\<close>

subsection \<open>Effects and members left alone by the helpers\<close>

lemma RecvRenderLayers_unblocked_stale:
  "mPendingDocShellBlockers s = 0 \<Longrightarrow> aEpoch \<le> mLayersObserverEpoch s \<Longrightarrow>
   RecvRenderLayers e en f aEpoch s = Inr (IPC_OK, s)"
  by (simp add: RecvRenderLayers_def)

lemma effects_emit [simp]: "effects (emit x s) = effects s @ [x]"
  by (simp add: emit_def)

lemma emit_fields [simp]:
  "mPendingDocShellBlockers (emit x s) = mPendingDocShellBlockers s"
  "mLayersObserverEpoch (emit x s) = mLayersObserverEpoch s"
  "mCompositorOptions (emit x s) = mCompositorOptions s"
  "mPuppetWidget (emit x s) = mPuppetWidget s"
  "mIPCOpen (emit x s) = mIPCOpen s"
  "mDestroyed (emit x s) = mDestroyed s"
  by (simp_all add: emit_def)

lemma PuppetWidget_Show_fields [simp]:
  "mPendingDocShellBlockers (PuppetWidget_Show b s) = mPendingDocShellBlockers s"
  "mLayersObserverEpoch (PuppetWidget_Show b s) = mLayersObserverEpoch s"
  "mCompositorOptions (PuppetWidget_Show b s) = mCompositorOptions s"
  "(mPuppetWidget (PuppetWidget_Show b s) = None) = (mPuppetWidget s = None)"
  "mIPCOpen (PuppetWidget_Show b s) = mIPCOpen s"
  "mDestroyed (PuppetWidget_Show b s) = mDestroyed s"
  by (simp_all add: PuppetWidget_Show_def split: option.splits)

lemma RenderLayersBody_fields [simp]:
  "mPendingDocShellBlockers (RenderLayersBody e en f s) = mPendingDocShellBlockers s"
  "mLayersObserverEpoch (RenderLayersBody e en f s) = mLayersObserverEpoch s"
  "mCompositorOptions (RenderLayersBody e en f s) = mCompositorOptions s"
  "(mPuppetWidget (RenderLayersBody e en f s) = None) = (mPuppetWidget s = None)"
  "mIPCOpen (RenderLayersBody e en f s) = mIPCOpen s"
  "mDestroyed (RenderLayersBody e en f s) = mDestroyed s"
  by (simp_all add: RenderLayersBody_def MakeVisible_def MakeHidden_def Let_def split: option.splits)

lemma RecvRenderLayers_unblocked_fresh:
  assumes "mPendingDocShellBlockers s = 0" "mLayersObserverEpoch s < aEpoch"
    and "RecvRenderLayers e en f aEpoch s = Inr (r, s')"
  shows "r = IPC_OK \<and> mLayersObserverEpoch s' = aEpoch \<and> mPendingDocShellBlockers s' = 0
     \<and> mCompositorOptions s' = mCompositorOptions s
     \<and> (mPuppetWidget s' = None) = (mPuppetWidget s = None)"
  using assms
  by (auto simp: RecvRenderLayers_def Let_def split: if_splits)

lemma RecvRenderLayers_unblocked_total:
  assumes "mPendingDocShellBlockers s = 0" "\<not> (mCompositorOptions s \<and> mPuppetWidget s = None)"
  shows "\<exists>s'. RecvRenderLayers e en f aEpoch s = Inr (IPC_OK, s')"
  using assms
  by (auto simp: RecvRenderLayers_def Let_def split: if_splits)

subsection \<open>Render epoch\<close>

text \<open>
  C3. As stated for every call, the claim fails while a blocker is pending: then
  \<^verbatim>\<open>RecvRenderLayers\<close> captures the request before it looks at the epoch, so a
  stale request changes the actor (the pending members) and a fresh one does not
  move the epoch.
\<close>

theorem RecvRenderLayers_epoch_counterexample:
  "RecvRenderLayers contentProcess True False 3 blockedActor \<noteq> Inr (IPC_OK, blockedActor)
   \<and> RecvRenderLayers contentProcess True False 7 blockedActor =
       Inr (IPC_OK, blockedActor\<lparr>mPendingRenderLayersReceivedMessage := True,
                                 mPendingRenderLayers := True,
                                 mPendingLayersObserverEpoch := 7\<rparr>)
   \<and> mLayersObserverEpoch (blockedActor\<lparr>mPendingRenderLayersReceivedMessage := True,
                                 mPendingRenderLayers := True,
                                 mPendingLayersObserverEpoch := 7\<rparr>) = 5"
proof -
  have b: "mPendingDocShellBlockers blockedActor = 1"
    by (simp add: blockedActor_def)
  have n: "\<not> mPendingRenderLayersReceivedMessage blockedActor"
    by (simp add: blockedActor_def openActor_def BrowserChild_ctor_def)
  have "mPendingRenderLayersReceivedMessage
          (snd (projr (RecvRenderLayers contentProcess True False 3 blockedActor)))"
    using b by (simp add: RecvRenderLayers_def)
  with n have 1: "RecvRenderLayers contentProcess True False 3 blockedActor \<noteq> Inr (IPC_OK, blockedActor)"
    by auto
  have 2: "RecvRenderLayers contentProcess True False 7 blockedActor =
       Inr (IPC_OK, blockedActor\<lparr>mPendingRenderLayersReceivedMessage := True,
                                 mPendingRenderLayers := True,
                                 mPendingLayersObserverEpoch := 7\<rparr>)"
    using b by (simp add: RecvRenderLayers_def)
  have 3: "mLayersObserverEpoch (blockedActor\<lparr>mPendingRenderLayersReceivedMessage := True,
                                 mPendingRenderLayers := True,
                                 mPendingLayersObserverEpoch := 7\<rparr>) = 5"
    by (simp add: blockedActor_def)
  from 1 2 3 show ?thesis by blast
qed

text \<open>
  C3, amended. For every \<^verbatim>\<open>RecvRenderLayers\<close> call received while no blocker is
  pending: if the carried epoch is less than or equal to the current epoch the
  call returns without changing the actor; otherwise (the widget being there
  when compositor options are) it returns with the current epoch set to the
  carried one. So requests with epochs 5, 3, 7, 7, 6 to an actor at epoch 0 apply
  5 and 7 and leave the actor as it is at 3, the second 7 and 6.
\<close>

theorem RecvRenderLayers_epoch_unblocked:
  assumes "mPendingDocShellBlockers s = 0"
  shows "(aEpoch \<le> mLayersObserverEpoch s \<longrightarrow> RecvRenderLayers e en f aEpoch s = Inr (IPC_OK, s))
    \<and> (mLayersObserverEpoch s < aEpoch \<and> \<not> (mCompositorOptions s \<and> mPuppetWidget s = None) \<longrightarrow>
         (\<exists>s'. RecvRenderLayers e en f aEpoch s = Inr (IPC_OK, s')
               \<and> mLayersObserverEpoch s' = aEpoch))
    \<and> (mLayersObserverEpoch s = 0 \<and> \<not> (mCompositorOptions s \<and> mPuppetWidget s = None) \<longrightarrow>
         (\<exists>s1 s2. RecvRenderLayers e en1 f1 5 s = Inr (IPC_OK, s1) \<and> mLayersObserverEpoch s1 = 5
            \<and> RecvRenderLayers e en2 f2 3 s1 = Inr (IPC_OK, s1)
            \<and> RecvRenderLayers e en3 f3 7 s1 = Inr (IPC_OK, s2) \<and> mLayersObserverEpoch s2 = 7
            \<and> RecvRenderLayers e en4 f4 7 s2 = Inr (IPC_OK, s2)
            \<and> RecvRenderLayers e en5 f5 6 s2 = Inr (IPC_OK, s2)))"
proof (intro conjI impI)
  assume "aEpoch \<le> mLayersObserverEpoch s"
  with assms show "RecvRenderLayers e en f aEpoch s = Inr (IPC_OK, s)"
    by (rule RecvRenderLayers_unblocked_stale)
next
  assume h: "mLayersObserverEpoch s < aEpoch \<and> \<not> (mCompositorOptions s \<and> mPuppetWidget s = None)"
  then obtain s' where r: "RecvRenderLayers e en f aEpoch s = Inr (IPC_OK, s')"
    using RecvRenderLayers_unblocked_total [OF assms] by blast
  with h assms have "mLayersObserverEpoch s' = aEpoch"
    using RecvRenderLayers_unblocked_fresh by blast
  with r show "\<exists>s'. RecvRenderLayers e en f aEpoch s = Inr (IPC_OK, s') \<and> mLayersObserverEpoch s' = aEpoch"
    by blast
next
  assume h: "mLayersObserverEpoch s = 0 \<and> \<not> (mCompositorOptions s \<and> mPuppetWidget s = None)"
  obtain s1 where r1: "RecvRenderLayers e en1 f1 5 s = Inr (IPC_OK, s1)"
    using RecvRenderLayers_unblocked_total [OF assms] h by blast
  have lt1: "mLayersObserverEpoch s < 5" using h by simp
  have p1: "mLayersObserverEpoch s1 = 5" "mPendingDocShellBlockers s1 = 0"
    "\<not> (mCompositorOptions s1 \<and> mPuppetWidget s1 = None)"
    using RecvRenderLayers_unblocked_fresh [OF assms lt1 r1] h by simp_all
  have r2: "RecvRenderLayers e en2 f2 3 s1 = Inr (IPC_OK, s1)"
    using p1 by (simp add: RecvRenderLayers_unblocked_stale)
  obtain s2 where r3: "RecvRenderLayers e en3 f3 7 s1 = Inr (IPC_OK, s2)"
    using RecvRenderLayers_unblocked_total [OF p1(2)] p1(3) by blast
  have lt2: "mLayersObserverEpoch s1 < 7" using p1 by simp
  have p2: "mLayersObserverEpoch s2 = 7" "mPendingDocShellBlockers s2 = 0"
    using RecvRenderLayers_unblocked_fresh [OF p1(2) lt2 r3] by simp_all
  have r4: "RecvRenderLayers e en4 f4 7 s2 = Inr (IPC_OK, s2)"
    using p2 by (simp add: RecvRenderLayers_unblocked_stale)
  have r5: "RecvRenderLayers e en5 f5 6 s2 = Inr (IPC_OK, s2)"
    using p2 by (simp add: RecvRenderLayers_unblocked_stale)
  from r1 p1 r2 r3 p2 r4 r5
  show "\<exists>s1 s2. RecvRenderLayers e en1 f1 5 s = Inr (IPC_OK, s1) \<and> mLayersObserverEpoch s1 = 5
            \<and> RecvRenderLayers e en2 f2 3 s1 = Inr (IPC_OK, s1)
            \<and> RecvRenderLayers e en3 f3 7 s1 = Inr (IPC_OK, s2) \<and> mLayersObserverEpoch s2 = 7
            \<and> RecvRenderLayers e en4 f4 7 s2 = Inr (IPC_OK, s2)
            \<and> RecvRenderLayers e en5 f5 6 s2 = Inr (IPC_OK, s2)"
    by blast
qed

theorem RecvRenderLayers_epoch_unblocked_witness:
  "mPendingDocShellBlockers openActor = 0
   \<and> RecvRenderLayers contentProcess True False 1 openActor = Inr (IPC_OK, openActor)
   \<and> (\<exists>s1 s2. RecvRenderLayers contentProcess True False 5 (openActor\<lparr>mLayersObserverEpoch := 0\<rparr>) = Inr (IPC_OK, s1)
          \<and> mLayersObserverEpoch s1 = 5
          \<and> RecvRenderLayers contentProcess True False 3 s1 = Inr (IPC_OK, s1)
          \<and> RecvRenderLayers contentProcess False False 7 s1 = Inr (IPC_OK, s2)
          \<and> mLayersObserverEpoch s2 = 7
          \<and> RecvRenderLayers contentProcess True True 7 s2 = Inr (IPC_OK, s2)
          \<and> RecvRenderLayers contentProcess True False 6 s2 = Inr (IPC_OK, s2))"
proof -
  have b: "mPendingDocShellBlockers openActor = 0"
    by (simp add: openActor_def BrowserChild_ctor_def)
  have b0: "mPendingDocShellBlockers (openActor\<lparr>mLayersObserverEpoch := 0\<rparr>) = 0"
    using b by simp
  have ep: "(1::64 word) \<le> mLayersObserverEpoch openActor"
    by (simp add: openActor_def BrowserChild_ctor_def)
  have w: "mLayersObserverEpoch (openActor\<lparr>mLayersObserverEpoch := 0\<rparr>) = 0
     \<and> \<not> (mCompositorOptions (openActor\<lparr>mLayersObserverEpoch := 0\<rparr>)
          \<and> mPuppetWidget (openActor\<lparr>mLayersObserverEpoch := 0\<rparr>) = None)"
    by (simp add: openActor_def BrowserChild_ctor_def)
  show ?thesis
    using RecvRenderLayers_epoch_unblocked [OF b, of 1 contentProcess True False]
      RecvRenderLayers_epoch_unblocked [OF b0, of 0 contentProcess True False
        True False True False False False True True True False]
      b ep w
    by blast
qed

subsection \<open>Messages other than Destroy are quiet\<close>

lemma quiet_refl [simp]: "quiet s s"
  by (simp add: quiet_def)

lemma quiet_trans: "quiet s t \<Longrightarrow> quiet t u \<Longrightarrow> quiet s u"
  by (auto simp: quiet_def)

lemma map_filter_append: "List.map_filter f (xs @ ys) = List.map_filter f xs @ List.map_filter f ys"
  by (simp add: List.map_filter_def)


lemma quiet_emit:
  "x \<noteq> Send_delete \<Longrightarrow> threadDispatch x = None \<Longrightarrow> quiet s (emit x s)"
  by (simp add: quiet_def emit_def channelCloses_def dispatchedRunnables_def map_filter_append
      List.map_filter_def)

lemma quiet_HandleRealMouseButtonEvent: "quiet s (HandleRealMouseButtonEvent ev g b s)"
  by (simp add: HandleRealMouseButtonEvent_def Let_def quiet_def emit_def channelCloses_def
      dispatchedRunnables_def List.map_filter_def)

lemma quiet_DispatchFront: "quiet s (DispatchFront d s)"
  by (simp add: DispatchFront_def quiet_HandleRealMouseButtonEvent split: option.splits)

lemma quiet_DispatchLoop: "quiet s (DispatchLoop s)"
proof (induction s rule: DispatchLoop.induct)
  case (1 s)
  show ?case
  proof (cases "mToBeDispatchedMouseData s")
    case Nil
    then show ?thesis by (simp add: DispatchLoop.simps)
  next
    case (Cons d rest)
    have a: "quiet s (s\<lparr>mToBeDispatchedMouseData := rest\<rparr>)"
      by (simp add: quiet_def channelCloses_def dispatchedRunnables_def)
    have b: "quiet (s\<lparr>mToBeDispatchedMouseData := rest\<rparr>)
               (DispatchFront d (s\<lparr>mToBeDispatchedMouseData := rest\<rparr>))"
      by (rule quiet_DispatchFront)
    have c: "quiet (DispatchFront d (s\<lparr>mToBeDispatchedMouseData := rest\<rparr>))
               (DispatchLoop (DispatchFront d (s\<lparr>mToBeDispatchedMouseData := rest\<rparr>)))"
      using "1.IH" Cons by simp
    have "DispatchLoop s = DispatchLoop (DispatchFront d (s\<lparr>mToBeDispatchedMouseData := rest\<rparr>))"
      using Cons by (simp add: DispatchLoop.simps [of s])
    with a b c show ?thesis by (metis quiet_trans)
  qed
qed

lemma quiet_update [simp]:
  "quiet s (s\<lparr>mToBeDispatchedMouseData := q\<rparr>)"
  "quiet s (s\<lparr>mCoalescedMouseData := m\<rparr>)"
  "quiet s (s\<lparr>mCoalescedWheelData := w\<rparr>)"
  "quiet s (s\<lparr>mLastWheelProcessedTimeFromParent := t\<rparr>)"
  "quiet s (s\<lparr>mLastWheelProcessingDuration := d\<rparr>)"
  "quiet s (s\<lparr>mPendingDocShellBlockers := n\<rparr>)"
  "quiet s (s\<lparr>mPendingDocShellReceivedMessage := b1\<rparr>)"
  "quiet s (s\<lparr>mPendingRenderLayersReceivedMessage := b2\<rparr>)"
  "quiet s (s\<lparr>mLayersObserverEpoch := ep\<rparr>)"
  "quiet s (s\<lparr>inVisibleTabs := v\<rparr>)"
  "quiet s (s\<lparr>mIPCOpen := False\<rparr>)"
  "quiet s (s\<lparr>mCoalescedMouseEventFlusher := fl\<rparr>)"
  "quiet s (s\<lparr>mPuppetWidget := pw\<rparr>)"
  by (simp_all add: quiet_def channelCloses_def dispatchedRunnables_def)

lemma quiet_step: "quiet s t \<Longrightarrow> quiet t u \<Longrightarrow> quiet s u"
  by (rule quiet_trans)

lemma quiet_ProcessPending: "quiet s (ProcessPendingCoalescedMouseDataAndDispatchEvents s)"
proof -
  have a: "quiet s (emit StartObserver s)" by (simp add: quiet_emit)
  have b: "quiet (emit StartObserver s) (DispatchLoop (emit StartObserver s))"
    by (rule quiet_DispatchLoop)
  have c: "quiet (DispatchLoop (emit StartObserver s))
             (emit RemoveObserver (DispatchLoop (emit StartObserver s)))"
    by (simp add: quiet_emit)
  show ?thesis
    unfolding ProcessPendingCoalescedMouseDataAndDispatchEvents_def Let_def
    using a b c by (auto intro: quiet_trans)
qed

lemma quiet_FlushOne: "quiet s (FlushOne s k)"
  by (simp add: FlushOne_def split: option.splits)

lemma quiet_foldl_FlushOne: "quiet s (foldl FlushOne s ks)"
proof (induction ks arbitrary: s)
  case Nil
  show ?case by simp
next
  case (Cons k ks)
  have "quiet s (FlushOne s k)" by (rule quiet_FlushOne)
  moreover have "quiet (FlushOne s k) (foldl FlushOne (FlushOne s k) ks)" by (rule Cons.IH)
  ultimately show ?case by (auto intro: quiet_trans)
qed

lemma quiet_FlushAll: "quiet s (FlushAllCoalescedMouseData ks s)"
  unfolding FlushAllCoalescedMouseData_def
  by (rule quiet_trans [OF quiet_foldl_FlushOne [of s ks]]) simp

lemma quiet_RecvRealMouseButtonEvent: "quiet s (snd (RecvRealMouseButtonEvent ks ev g b s))"
proof (cases "mCoalesceMouseMoveEvents s \<and> mCoalescedMouseEventFlusher s \<and> mMessage ev \<noteq> eMouseMove")
  case True
  let ?s1 = "FlushAllCoalescedMouseData ks s"
  let ?s2 = "?s1\<lparr>mToBeDispatchedMouseData :=
       mToBeDispatchedMouseData ?s1 @ [Coalesce NewCoalescedMouseData ev g b]\<rparr>"
  have "quiet s ?s1" by (rule quiet_FlushAll)
  moreover have "quiet ?s1 ?s2" by simp
  moreover have "quiet ?s2 (ProcessPendingCoalescedMouseDataAndDispatchEvents ?s2)"
    by (rule quiet_ProcessPending)
  ultimately have "quiet s (ProcessPendingCoalescedMouseDataAndDispatchEvents ?s2)"
    by (blast intro: quiet_trans)
  then show ?thesis using True by (simp add: RecvRealMouseButtonEvent_def Let_def)
next
  case False
  then show ?thesis
    by (auto simp: RecvRealMouseButtonEvent_def quiet_HandleRealMouseButtonEvent)
qed

lemma quiet_RecvRealMouseMoveEvent: "quiet s (snd (RecvRealMouseMoveEvent ks ev g b s))"
proof (cases "mCoalesceMouseMoveEvents s \<and> mCoalescedMouseEventFlusher s")
  case False
  have "snd (RecvRealMouseMoveEvent ks ev g b s) = snd (RecvRealMouseButtonEvent ks ev g b s)"
    using False by (auto simp: RecvRealMouseMoveEvent_def split: prod.splits IPCResult.splits)
  then show ?thesis by (simp add: quiet_RecvRealMouseButtonEvent)
next
  case True
  define data where "data = (case mCoalescedMouseData s (pointerId ev) of
                      None \<Rightarrow> NewCoalescedMouseData | Some d \<Rightarrow> d)"
  show ?thesis
  proof (cases "CanCoalesce data ev g b")
    case c: True
    have "quiet s (emit StartObserver (s\<lparr>mCoalescedMouseData :=
                     (mCoalescedMouseData s)(pointerId ev \<mapsto> Coalesce data ev g b)\<rparr>))"
      by (rule quiet_trans [OF _ quiet_emit]) simp_all
    then show ?thesis using True c
      by (simp add: RecvRealMouseMoveEvent_def Let_def data_def)
  next
    case c: False
    let ?s1 = "s\<lparr>mToBeDispatchedMouseData := mToBeDispatchedMouseData s @ [RetrieveDataFrom data]\<rparr>"
    let ?s2 = "?s1\<lparr>mCoalescedMouseData := (mCoalescedMouseData ?s1)
                   (pointerId ev \<mapsto> Coalesce NewCoalescedMouseData ev g b)\<rparr>"
    let ?s3 = "ProcessPendingCoalescedMouseDataAndDispatchEvents ?s2"
    have "quiet s ?s1" by simp
    moreover have "quiet ?s1 ?s2" by simp
    moreover have "quiet ?s2 ?s3" by (rule quiet_ProcessPending)
    moreover have "quiet ?s3 (emit StartObserver ?s3)" by (simp add: quiet_emit)
    ultimately have "quiet s (emit StartObserver ?s3)" by (blast intro: quiet_trans)
    then show ?thesis using True c
      by (simp add: RecvRealMouseMoveEvent_def Let_def data_def)
  qed
qed

lemma quiet_DispatchWheelEvent: "quiet s (DispatchWheelEvent ev g b s)"
  by (simp add: DispatchWheelEvent_def Let_def quiet_def emit_def channelCloses_def
      dispatchedRunnables_def List.map_filter_def)

lemma quiet_MaybeDispatchCoalescedWheelEvent: "quiet s (MaybeDispatchCoalescedWheelEvent s)"
  unfolding MaybeDispatchCoalescedWheelEvent_def
  by (auto split: option.splits intro: quiet_trans [OF _ quiet_DispatchWheelEvent])

lemma quiet_MaybeCoalesceWheelEvent:
  "quiet s (snd (snd (MaybeCoalesceWheelEvent nxt ev g b i s)))"
  by (simp add: MaybeCoalesceWheelEvent_def Let_def)

lemma quiet_RecvMouseWheelEvent: "quiet s (snd (RecvMouseWheelEvent nxt t0 t1 ev g b s))"
proof -
  obtain c i s1 where m: "MaybeCoalesceWheelEvent nxt ev g b False s = (c, i, s1)"
    by (cases "MaybeCoalesceWheelEvent nxt ev g b False s") auto
  have q1: "quiet s s1" using quiet_MaybeCoalesceWheelEvent [of s nxt ev g b False] m by simp
  have q: "\<And>t u. quiet s1 t \<Longrightarrow> quiet t u \<Longrightarrow> quiet s u"
    using q1 by (blast intro: quiet_trans)
  have w: "\<And>t. quiet s1 t \<Longrightarrow>
     quiet s (DispatchWheelEvent ev g b (MaybeDispatchCoalescedWheelEvent t))"
    by (meson q quiet_trans quiet_MaybeDispatchCoalescedWheelEvent quiet_DispatchWheelEvent)
  show ?thesis
  proof (cases c)
    case True
    then show ?thesis using m q1 by (simp add: RecvMouseWheelEvent_def)
  next
    case False
    show ?thesis
    proof (cases i)
      case True
      let ?s4 = "DispatchWheelEvent ev g b (MaybeDispatchCoalescedWheelEvent
                  (s1\<lparr>mLastWheelProcessedTimeFromParent := Some (wTimeStamp ev)\<rparr>))"
      have "quiet s ?s4" by (rule w) simp
      then have "quiet s (?s4\<lparr>mLastWheelProcessingDuration := t1 - t0\<rparr>)"
        by (rule quiet_trans) simp
      then have "quiet s (?s4\<lparr>mLastWheelProcessingDuration := t1 - t0,
           mLastWheelProcessedTimeFromParent := map_option (\<lambda>t. t + (t1 - t0))
              (mLastWheelProcessedTimeFromParent ?s4)\<rparr>)"
        by (rule quiet_trans) simp
      then show ?thesis using m False True by (simp add: RecvMouseWheelEvent_def Let_def)
    next
      case i: False
      have "quiet s (DispatchWheelEvent ev g b (MaybeDispatchCoalescedWheelEvent
                  (s1\<lparr>mLastWheelProcessedTimeFromParent := None\<rparr>)))"
        by (rule w) simp
      then show ?thesis using m False i by (simp add: RecvMouseWheelEvent_def Let_def)
    qed
  qed
qed

lemma quiet_InternalSetDocShellIsActive: "quiet s (InternalSetDocShellIsActive e a s)"
  by (simp add: InternalSetDocShellIsActive_def quiet_emit)

lemma quiet_RecvSetDocShellIsActive: "quiet s (snd (RecvSetDocShellIsActive e a s))"
  by (simp add: RecvSetDocShellIsActive_def InternalSetDocShellIsActive_def emit_def
      quiet_def channelCloses_def dispatchedRunnables_def List.map_filter_def)

lemma quiet_PuppetWidget_Show: "quiet s (PuppetWidget_Show b s)"
  by (simp add: PuppetWidget_Show_def quiet_def emit_def channelCloses_def
      dispatchedRunnables_def List.map_filter_def split: option.splits)

lemma quiet_MakeVisible: "quiet s (MakeVisible s)"
  by (simp add: MakeVisible_def quiet_PuppetWidget_Show)

lemma quiet_MakeHidden: "quiet s (MakeHidden e s)"
proof -
  have "\<And>t. quiet s t \<Longrightarrow> quiet s (PuppetWidget_Show False t)"
    by (blast intro: quiet_trans quiet_PuppetWidget_Show)
  moreover have "\<And>t x. quiet s t \<Longrightarrow> x \<noteq> Send_delete \<Longrightarrow> threadDispatch x = None
      \<Longrightarrow> quiet s (emit x t)"
    by (blast intro: quiet_trans quiet_emit)
  ultimately show ?thesis
    by (simp add: MakeHidden_def Let_def split: option.splits)
qed

lemma quiet_then_emit:
  "quiet s t \<Longrightarrow> x \<noteq> Send_delete \<Longrightarrow> threadDispatch x = None \<Longrightarrow> quiet s (emit x t)"
  by (blast intro: quiet_trans quiet_emit)

lemma quiet_RenderLayersBody: "quiet s (RenderLayersBody e en f s)"
proof -
  have v: "quiet s (MakeVisible (s\<lparr>inVisibleTabs := True\<rparr>))"
    by (rule quiet_trans [OF _ quiet_MakeVisible]) simp
  have h: "quiet s (MakeHidden e (s\<lparr>inVisibleTabs := False\<rparr>))"
    by (rule quiet_trans [OF _ quiet_MakeHidden]) simp
  show ?thesis
    using v h by (simp add: RenderLayersBody_def Let_def quiet_then_emit quiet_emit)
qed

lemma quiet_RecvRenderLayers:
  "RecvRenderLayers e en f ep s = Inr (r, s') \<Longrightarrow> quiet s s'"
proof -
  assume a: "RecvRenderLayers e en f ep s = Inr (r, s')"
  have b: "\<And>t. quiet s t \<Longrightarrow> quiet s (RenderLayersBody e en f t)"
    by (blast intro: quiet_trans quiet_RenderLayersBody)
  have c: "quiet s (s\<lparr>mLayersObserverEpoch := ep\<rparr>)" by simp
  have d: "quiet s (s\<lparr>mPendingRenderLayersReceivedMessage := True,
          mPendingRenderLayers := en, mPendingLayersObserverEpoch := ep\<rparr>)"
    by (simp add: quiet_def channelCloses_def dispatchedRunnables_def)
  show ?thesis
    using a b c d
    by (auto simp: RecvRenderLayers_def Let_def quiet_then_emit split: if_splits)
qed

lemma quiet_AddPendingDocShellBlocker: "quiet s (AddPendingDocShellBlocker s)"
  by (simp add: AddPendingDocShellBlocker_def)

lemma quiet_RemovePendingDocShellBlocker:
  assumes "RemovePendingDocShellBlocker e s = Inr s'"
  shows "quiet s s'"
proof -
  let ?s1 = "s\<lparr>mPendingDocShellBlockers := mPendingDocShellBlockers s - 1\<rparr>"
  define s2 where "s2 = (if mPendingDocShellBlockers ?s1 = 0 \<and> mPendingDocShellReceivedMessage ?s1
                then InternalSetDocShellIsActive e (mPendingDocShellIsActive ?s1)
                       (?s1\<lparr>mPendingDocShellReceivedMessage := False\<rparr>)
                else ?s1)"
  have q2: "quiet s s2"
    by (simp add: s2_def InternalSetDocShellIsActive_def emit_def
        quiet_def channelCloses_def dispatchedRunnables_def List.map_filter_def)
  show ?thesis
  proof (cases "mPendingDocShellBlockers s2 = 0 \<and> mPendingRenderLayersReceivedMessage s2")
    case False
    then have "s' = s2"
      using assms unfolding RemovePendingDocShellBlocker_def Let_def s2_def [symmetric] by auto
    with q2 show ?thesis by simp
  next
    case True
    then obtain r where
      "RecvRenderLayers e (mPendingRenderLayers s2) False (mPendingLayersObserverEpoch s2)
         (s2\<lparr>mPendingRenderLayersReceivedMessage := False\<rparr>) = Inr (r, s')"
      using assms unfolding RemovePendingDocShellBlocker_def Let_def s2_def [symmetric]
      by (auto split: sum.splits)
    then have "quiet (s2\<lparr>mPendingRenderLayersReceivedMessage := False\<rparr>) s'"
      by (rule quiet_RecvRenderLayers)
    moreover have "quiet s2 (s2\<lparr>mPendingRenderLayersReceivedMessage := False\<rparr>)" by simp
    ultimately show ?thesis using q2 by (blast intro: quiet_trans)
  qed
qed

lemma quiet_DestroyWindow:
  assumes "DestroyWindow e s = Inr s'"
  shows "quiet s s'"
  using assms
  by (auto simp: DestroyWindow_def Let_def quiet_def emit_def channelCloses_def
      dispatchedRunnables_def List.map_filter_def split: if_splits option.splits)

lemma quiet_ActorDestroy:
  assumes "ActorDestroy e s = Inr s'"
  shows "quiet s s'"
proof -
  obtain s1 where w: "DestroyWindow e (s\<lparr>mIPCOpen := False\<rparr>) = Inr s1"
    using assms by (cases "DestroyWindow e (s\<lparr>mIPCOpen := False\<rparr>)") (simp_all add: ActorDestroy_def)
  have "quiet (s\<lparr>mIPCOpen := False\<rparr>) s1" using w by (rule quiet_DestroyWindow)
  then have q1: "quiet s s1" by (rule quiet_trans [rotated]) simp
  let ?s2 = "if mBrowserChildMessageManager s1 \<and> hasMessageManager e
             then emit DisconnectMessageManager s1 else s1"
  let ?s3 = "if hasCompositorBridgeChild e then emit CancelNotifyAfterRemotePaint ?s2 else ?s2"
  let ?s4 = "if mUniqueId ?s3 \<noteq> 0 then emit EraseNestedBrowserChild ?s3 else ?s3"
  have q2: "quiet s ?s2" using q1 by (simp add: quiet_then_emit)
  have q3: "quiet s ?s3" using q2 by (simp add: quiet_then_emit)
  have q4: "quiet s ?s4" using q3 by (simp add: quiet_then_emit)
  have "s' = ?s4"
    using assms w by (auto simp: ActorDestroy_def Let_def split: if_splits)
  with q4 show ?thesis by simp
qed

lemma quiet_receive:
  assumes "receive e m s = Inr s'"
  shows "quiet s s'"
proof (cases m)
  case (RealMouseMoveEvent ks ev g b)
  with assms show ?thesis using quiet_RecvRealMouseMoveEvent [of s ks ev g b] by auto
next
  case (RealMouseButtonEvent ks ev g b)
  with assms show ?thesis using quiet_RecvRealMouseButtonEvent [of s ks ev g b] by auto
next
  case (MouseWheelEvent nxt t0 t1 ev g b)
  with assms show ?thesis using quiet_RecvMouseWheelEvent [of s nxt t0 t1 ev g b] by auto
next
  case (SetDocShellIsActive a)
  with assms show ?thesis using quiet_RecvSetDocShellIsActive [of s e a] by auto
next
  case (RenderLayers en force ep)
  with assms show ?thesis
    by (auto split: sum.splits dest: quiet_RecvRenderLayers)
next
  case AddBlocker
  with assms show ?thesis using quiet_AddPendingDocShellBlocker [of s] by auto
next
  case RemoveBlocker
  with assms show ?thesis by (auto dest: quiet_RemovePendingDocShellBlocker)
next
  case ChannelClosed
  with assms show ?thesis by (auto dest: quiet_ActorDestroy)
qed

lemma quiet_deliver:
  "deliver e ms s = Inr s' \<Longrightarrow> quiet s s'"
proof (induction ms arbitrary: s)
  case Nil
  then show ?case by simp
next
  case (Cons m ms)
  then obtain t where t: "receive e m s = Inr t" "deliver e ms t = Inr s'"
    by (auto split: sum.splits)
  from t(1) have "quiet s t" by (rule quiet_receive)
  moreover from t(2) have "quiet t s'" by (rule Cons.IH)
  ultimately show ?case by (rule quiet_trans)
qed

subsection \<open>The pending-docshell blockers\<close>

lemma deliver_blocked:
  assumes "mPendingDocShellBlockers s > 0" "\<forall>m\<in>set reqs. isDeferredKind m"
  shows "deliver e reqs s =
     Inr (s\<lparr>mPendingDocShellReceivedMessage :=
               (mPendingDocShellReceivedMessage s \<or> lastActive reqs \<noteq> None),
             mPendingDocShellIsActive :=
               (case lastActive reqs of None \<Rightarrow> mPendingDocShellIsActive s | Some a \<Rightarrow> a),
             mPendingRenderLayersReceivedMessage :=
               (mPendingRenderLayersReceivedMessage s \<or> lastRender reqs \<noteq> None),
             mPendingRenderLayers :=
               (case lastRender reqs of None \<Rightarrow> mPendingRenderLayers s | Some x \<Rightarrow> fst x),
             mPendingLayersObserverEpoch :=
               (case lastRender reqs of None \<Rightarrow> mPendingLayersObserverEpoch s | Some x \<Rightarrow> snd x)\<rparr>)"
  using assms
proof (induction reqs arbitrary: s)
  case Nil
  then show ?case by simp
next
  case (Cons m ms)
  show ?case
  proof (cases m)
    case (SetDocShellIsActive a)
    let ?s1 = "s\<lparr>mPendingDocShellReceivedMessage := True, mPendingDocShellIsActive := a\<rparr>"
    have r: "receive e m s = Inr ?s1"
      using Cons.prems SetDocShellIsActive by (simp add: RecvSetDocShellIsActive_def)
    have b: "mPendingDocShellBlockers ?s1 > 0" using Cons.prems by simp
    have g: "\<forall>m\<in>set ms. isDeferredKind m" using Cons.prems by simp
    show ?thesis
      using Cons.IH [OF b g] r SetDocShellIsActive
      by (cases "lastActive ms"; cases "lastRender ms") simp_all
  next
    case (RenderLayers en force ep)
    let ?s1 = "s\<lparr>mPendingRenderLayersReceivedMessage := True, mPendingRenderLayers := en,
                   mPendingLayersObserverEpoch := ep\<rparr>"
    have r: "receive e m s = Inr ?s1"
      using Cons.prems RenderLayers by (simp add: RecvRenderLayers_def)
    have b: "mPendingDocShellBlockers ?s1 > 0" using Cons.prems by simp
    have g: "\<forall>m\<in>set ms. isDeferredKind m" using Cons.prems by simp
    show ?thesis
      using Cons.IH [OF b g] r RenderLayers
      by (cases "lastActive ms"; cases "lastRender ms") simp_all
  qed (use Cons.prems in simp_all)
qed

lemma word32_pred_zero: "(x::32 word) - 1 = 0 \<longleftrightarrow> x = 1"
  by (metis diff_add_cancel add_0 diff_self)

text \<open>
  C4. While the blocker counter is above zero, set-active and render-enable
  messages are captured and not applied: the actor changes only in its pending
  members, which hold the value of the latest message of each kind, and nothing
  is added to the effects. A \<^verbatim>\<open>RemovePendingDocShellBlocker\<close> that does not reach
  zero only decrements. The one that reaches zero (the counter was 1) replays
  once the latest activation, through \<^verbatim>\<open>InternalSetDocShellIsActive\<close>, and once the
  latest render request, through \<^verbatim>\<open>RecvRenderLayers\<close>. In particular addBlocker,
  setActive(true), setActive(false), setActive(true), removeBlocker on an
  unblocked actor is one \<^verbatim>\<open>InternalSetDocShellIsActive(true)\<close>: one
  \<^verbatim>\<open>SetIsActive(true)\<close> on the docshell when there is one.
\<close>

theorem blocked_requests_replay_latest:
  assumes "0 < mPendingDocShellBlockers s"
    and "\<not> mPendingDocShellReceivedMessage s" and "\<not> mPendingRenderLayersReceivedMessage s"
    and "\<forall>m\<in>set reqs. isDeferredKind m"
    and "mPendingDocShellBlockers s0 = 0" and "\<not> mPendingRenderLayersReceivedMessage s0"
  shows "(\<exists>s'. deliver e reqs s = Inr s'
     \<and> s' = s\<lparr>mPendingDocShellReceivedMessage := (lastActive reqs \<noteq> None),
               mPendingDocShellIsActive :=
                 (case lastActive reqs of None \<Rightarrow> mPendingDocShellIsActive s | Some a \<Rightarrow> a),
               mPendingRenderLayersReceivedMessage := (lastRender reqs \<noteq> None),
               mPendingRenderLayers :=
                 (case lastRender reqs of None \<Rightarrow> mPendingRenderLayers s | Some x \<Rightarrow> fst x),
               mPendingLayersObserverEpoch :=
                 (case lastRender reqs of None \<Rightarrow> mPendingLayersObserverEpoch s | Some x \<Rightarrow> snd x)\<rparr>
     \<and> effects s' = effects s
     \<and> (mPendingDocShellBlockers s \<noteq> 1 \<longrightarrow>
           RemovePendingDocShellBlocker e s' =
             Inr (s'\<lparr>mPendingDocShellBlockers := mPendingDocShellBlockers s - 1\<rparr>))
     \<and> (mPendingDocShellBlockers s = 1 \<longrightarrow>
           RemovePendingDocShellBlocker e s' =
             (let u = s'\<lparr>mPendingDocShellBlockers := 0,
                         mPendingDocShellReceivedMessage := False,
                         mPendingRenderLayersReceivedMessage := False\<rparr>;
                  a = (case lastActive reqs of
                         None \<Rightarrow> u
                       | Some b \<Rightarrow> InternalSetDocShellIsActive e b u)
              in case lastRender reqs of
                   None \<Rightarrow> Inr a
                 | Some x \<Rightarrow>
                     (case RecvRenderLayers e (fst x) False (snd x) a of
                        Inl f \<Rightarrow> Inl f
                      | Inr y \<Rightarrow> Inr (snd y)))))
   \<and> deliver e [AddBlocker, SetDocShellIsActive True, SetDocShellIsActive False,
                 SetDocShellIsActive True, RemoveBlocker] s0 =
       Inr (InternalSetDocShellIsActive e True (s0\<lparr>mPendingDocShellIsActive := True, mPendingDocShellReceivedMessage := False\<rparr>))
   \<and> effects (InternalSetDocShellIsActive e True (s0\<lparr>mPendingDocShellIsActive := True, mPendingDocShellReceivedMessage := False\<rparr>)) =
       effects s0 @ (if hasDocShell e then [DocShellSetIsActive True] else [])"
proof -
  let ?s' = "s\<lparr>mPendingDocShellReceivedMessage := (lastActive reqs \<noteq> None),
               mPendingDocShellIsActive :=
                 (case lastActive reqs of None \<Rightarrow> mPendingDocShellIsActive s | Some a \<Rightarrow> a),
               mPendingRenderLayersReceivedMessage := (lastRender reqs \<noteq> None),
               mPendingRenderLayers :=
                 (case lastRender reqs of None \<Rightarrow> mPendingRenderLayers s | Some x \<Rightarrow> fst x),
               mPendingLayersObserverEpoch :=
                 (case lastRender reqs of None \<Rightarrow> mPendingLayersObserverEpoch s | Some x \<Rightarrow> snd x)\<rparr>"
  have d: "deliver e reqs s = Inr ?s'"
    using deliver_blocked [OF assms(1) assms(4), of e] assms(2,3) by simp
  have eff: "effects ?s' = effects s" by simp
  have ne: "mPendingDocShellBlockers s \<noteq> 1 \<longrightarrow>
           RemovePendingDocShellBlocker e ?s' =
             Inr (?s'\<lparr>mPendingDocShellBlockers := mPendingDocShellBlockers s - 1\<rparr>)"
    by (simp add: RemovePendingDocShellBlocker_def Let_def word32_pred_zero)
  have eq: "mPendingDocShellBlockers s = 1 \<longrightarrow>
           RemovePendingDocShellBlocker e ?s' =
             (let u = ?s'\<lparr>mPendingDocShellBlockers := 0,
                         mPendingDocShellReceivedMessage := False,
                         mPendingRenderLayersReceivedMessage := False\<rparr>;
                  a = (case lastActive reqs of
                         None \<Rightarrow> u
                       | Some b \<Rightarrow> InternalSetDocShellIsActive e b u)
              in case lastRender reqs of
                   None \<Rightarrow> Inr a
                 | Some x \<Rightarrow>
                     (case RecvRenderLayers e (fst x) False (snd x) a of
                        Inl f \<Rightarrow> Inl f
                      | Inr y \<Rightarrow> Inr (snd y)))"
    by (cases s; cases "lastActive reqs"; cases "lastRender reqs")
       (simp_all add: RemovePendingDocShellBlocker_def Let_def InternalSetDocShellIsActive_def
          emit_def split: sum.splits prod.splits)
  have ex: "deliver e [AddBlocker, SetDocShellIsActive True, SetDocShellIsActive False,
                 SetDocShellIsActive True, RemoveBlocker] s0 =
       Inr (InternalSetDocShellIsActive e True (s0\<lparr>mPendingDocShellIsActive := True, mPendingDocShellReceivedMessage := False\<rparr>))"
    using assms(5,6)
    by (cases s0)
       (simp add: AddPendingDocShellBlocker_def RecvSetDocShellIsActive_def
          RemovePendingDocShellBlocker_def Let_def InternalSetDocShellIsActive_def emit_def)
  have ex2: "effects (InternalSetDocShellIsActive e True (s0\<lparr>mPendingDocShellIsActive := True, mPendingDocShellReceivedMessage := False\<rparr>)) =
       effects s0 @ (if hasDocShell e then [DocShellSetIsActive True] else [])"
    by (simp add: InternalSetDocShellIsActive_def)
  from d eff ne eq ex ex2 show ?thesis by blast
qed

theorem blocked_requests_replay_latest_witness:
  "deliver contentProcess
      [SetDocShellIsActive True, RenderLayers True True 9, SetDocShellIsActive False]
      blockedActor =
     Inr (blockedActor\<lparr>mPendingDocShellReceivedMessage := True,
                        mPendingDocShellIsActive := False,
                        mPendingRenderLayersReceivedMessage := True,
                        mPendingRenderLayers := True,
                        mPendingLayersObserverEpoch := 9\<rparr>)
   \<and> deliver contentProcess
        [AddBlocker, SetDocShellIsActive True, SetDocShellIsActive False,
         SetDocShellIsActive True, RemoveBlocker] openActor =
       Inr (InternalSetDocShellIsActive contentProcess True
              (openActor\<lparr>mPendingDocShellIsActive := True,
                         mPendingDocShellReceivedMessage := False\<rparr>))
   \<and> effects (InternalSetDocShellIsActive contentProcess True
              (openActor\<lparr>mPendingDocShellIsActive := True,
                         mPendingDocShellReceivedMessage := False\<rparr>)) =
       [DocShellSetIsActive True]"
proof -
  have h1: "0 < mPendingDocShellBlockers blockedActor"
    by (simp add: blockedActor_def)
  have h2: "\<not> mPendingDocShellReceivedMessage blockedActor"
    by (simp add: blockedActor_def openActor_def BrowserChild_ctor_def)
  have h3: "\<not> mPendingRenderLayersReceivedMessage blockedActor"
    by (simp add: blockedActor_def openActor_def BrowserChild_ctor_def)
  have h4: "\<forall>m\<in>set [SetDocShellIsActive True, RenderLayers True True 9, SetDocShellIsActive False].
      isDeferredKind m"
    by simp
  have h5: "mPendingDocShellBlockers openActor = 0"
    by (simp add: openActor_def BrowserChild_ctor_def)
  have h6: "\<not> mPendingRenderLayersReceivedMessage openActor"
    by (simp add: openActor_def BrowserChild_ctor_def)
  have e0: "effects openActor = []" "hasDocShell contentProcess"
    by (simp_all add: openActor_def BrowserChild_ctor_def contentProcess_def)
  show ?thesis
    using blocked_requests_replay_latest [OF h1 h2 h3 h4 h5 h6, of contentProcess] e0
    by simp
qed

text \<open>
  C10. The force-repaint flag of a render request captured while blocked is not
  stored: the capture is the same whatever the flag. The replay, when the
  counter reaches zero, calls \<^verbatim>\<open>RecvRenderLayers\<close> with the captured enabled flag,
  the captured epoch and \<^verbatim>\<open>aForceRepaint = false\<close>. So a request received
  between addBlocker and removeBlocker on an unblocked actor ends as the direct
  call with the flag false.
\<close>

theorem replay_drops_forceRepaint:
  "(0 < mPendingDocShellBlockers s \<longrightarrow>
      RecvRenderLayers e en force ep s = RecvRenderLayers e en False ep s)
   \<and> (mPendingDocShellBlockers s = 1 \<and> mPendingRenderLayersReceivedMessage s \<longrightarrow>
        RemovePendingDocShellBlocker e s =
          (let u = s\<lparr>mPendingDocShellBlockers := 0\<rparr>;
               a = (if mPendingDocShellReceivedMessage s
                    then InternalSetDocShellIsActive e (mPendingDocShellIsActive s)
                           (u\<lparr>mPendingDocShellReceivedMessage := False\<rparr>)
                    else u)
           in case RecvRenderLayers e (mPendingRenderLayers s) False
                     (mPendingLayersObserverEpoch s)
                     (a\<lparr>mPendingRenderLayersReceivedMessage := False\<rparr>) of
                Inl f \<Rightarrow> Inl f
              | Inr y \<Rightarrow> Inr (snd y)))
   \<and> (mPendingDocShellBlockers s0 = 0 \<and> \<not> mPendingDocShellReceivedMessage s0
        \<and> \<not> mPendingRenderLayersReceivedMessage s0 \<longrightarrow>
        deliver e [AddBlocker, RenderLayers en force ep, RemoveBlocker] s0 =
          (case RecvRenderLayers e en False ep
                  (s0\<lparr>mPendingRenderLayers := en, mPendingLayersObserverEpoch := ep\<rparr>) of
             Inl f \<Rightarrow> Inl f
           | Inr y \<Rightarrow> Inr (snd y)))"
proof (intro conjI impI)
  assume "0 < mPendingDocShellBlockers s"
  then show "RecvRenderLayers e en force ep s = RecvRenderLayers e en False ep s"
    by (simp add: RecvRenderLayers_def)
next
  assume h: "mPendingDocShellBlockers s = 1 \<and> mPendingRenderLayersReceivedMessage s"
  then show "RemovePendingDocShellBlocker e s =
          (let u = s\<lparr>mPendingDocShellBlockers := 0\<rparr>;
               a = (if mPendingDocShellReceivedMessage s
                    then InternalSetDocShellIsActive e (mPendingDocShellIsActive s)
                           (u\<lparr>mPendingDocShellReceivedMessage := False\<rparr>)
                    else u)
           in case RecvRenderLayers e (mPendingRenderLayers s) False
                     (mPendingLayersObserverEpoch s)
                     (a\<lparr>mPendingRenderLayersReceivedMessage := False\<rparr>) of
                Inl f \<Rightarrow> Inl f
              | Inr y \<Rightarrow> Inr (snd y))"
    by (cases s)
       (simp add: RemovePendingDocShellBlocker_def Let_def InternalSetDocShellIsActive_def
          emit_def split: sum.splits prod.splits)
next
  assume h: "mPendingDocShellBlockers s0 = 0 \<and> \<not> mPendingDocShellReceivedMessage s0
        \<and> \<not> mPendingRenderLayersReceivedMessage s0"
  have a: "receive e AddBlocker s0 = Inr (s0\<lparr>mPendingDocShellBlockers := 1\<rparr>)"
    using h by (simp add: AddPendingDocShellBlocker_def)
  have b: "receive e (RenderLayers en force ep) (s0\<lparr>mPendingDocShellBlockers := 1\<rparr>) =
      Inr (s0\<lparr>mPendingDocShellBlockers := 1, mPendingRenderLayersReceivedMessage := True,
              mPendingRenderLayers := en, mPendingLayersObserverEpoch := ep\<rparr>)"
    by (simp add: RecvRenderLayers_def)
  have c: "receive e RemoveBlocker
      (s0\<lparr>mPendingDocShellBlockers := 1, mPendingRenderLayersReceivedMessage := True,
              mPendingRenderLayers := en, mPendingLayersObserverEpoch := ep\<rparr>) =
      (case RecvRenderLayers e en False ep
                  (s0\<lparr>mPendingRenderLayers := en, mPendingLayersObserverEpoch := ep\<rparr>) of
             Inl f \<Rightarrow> Inl f
           | Inr y \<Rightarrow> Inr (snd y))"
    using h
    by (cases s0)
       (simp add: RemovePendingDocShellBlocker_def Let_def split: sum.splits prod.splits)
  show "deliver e [AddBlocker, RenderLayers en force ep, RemoveBlocker] s0 =
          (case RecvRenderLayers e en False ep
                  (s0\<lparr>mPendingRenderLayers := en, mPendingLayersObserverEpoch := ep\<rparr>) of
             Inl f \<Rightarrow> Inl f
           | Inr y \<Rightarrow> Inr (snd y))"
    by (simp add: a b c del: receive.simps split: sum.splits)
qed

text \<open>
  On a visible actor with an open channel, a direct request with the flag set
  repaints, while the same request received while blocked is answered by the
  no-op acknowledgement.
\<close>

lemma visibleActor_direct_force:
  "RecvRenderLayers contentProcess True True 9 visibleActor =
     Inr (IPC_OK, visibleActor\<lparr>mLayersObserverEpoch := 9, inVisibleTabs := True,
            effects := [MaybeStartPaintWhileInterruptingJS, PresShellSetIsActive True,
                        SchedulePaint, PaintNowIfNeeded, ClearPaintWhileInterruptingJS 9]\<rparr>)"
  by (simp add: RecvRenderLayers_def RenderLayersBody_def MakeVisible_def IsVisible_def Let_def
      visibleActor_def openActor_def BrowserChild_ctor_def contentProcess_def emit_def
        word_le_nat_alt)

theorem replay_drops_forceRepaint_witness:
  "deliver contentProcess [AddBlocker, RenderLayers True True 9, RemoveBlocker] visibleActor =
     Inr (visibleActor\<lparr>mPendingRenderLayers := True, mPendingLayersObserverEpoch := 9,
            mLayersObserverEpoch := 9,
            effects := [MaybeStartPaintWhileInterruptingJS,
                        SendPaintWhileInterruptingJSNoOp 9,
                        ClearPaintWhileInterruptingJS 9]\<rparr>)"
proof -
  have h: "mPendingDocShellBlockers visibleActor = 0
      \<and> \<not> mPendingDocShellReceivedMessage visibleActor
      \<and> \<not> mPendingRenderLayersReceivedMessage visibleActor"
    by (simp add: visibleActor_def openActor_def BrowserChild_ctor_def)
  have r: "RecvRenderLayers contentProcess True False 9
             (visibleActor\<lparr>mPendingRenderLayers := True, mPendingLayersObserverEpoch := 9\<rparr>) =
     Inr (IPC_OK, visibleActor\<lparr>mPendingRenderLayers := True, mPendingLayersObserverEpoch := 9,
            mLayersObserverEpoch := 9,
            effects := [MaybeStartPaintWhileInterruptingJS,
                        SendPaintWhileInterruptingJSNoOp 9,
                        ClearPaintWhileInterruptingJS 9]\<rparr>)"
    by (simp add: RecvRenderLayers_def RenderLayersBody_def IsVisible_def Let_def
        visibleActor_def openActor_def BrowserChild_ctor_def contentProcess_def emit_def
        word_le_nat_alt)
  show ?thesis
    using replay_drops_forceRepaint [of visibleActor contentProcess True True 9 visibleActor] h r
    by simp
qed

subsection \<open>Pointer-move coalescing\<close>

lemma dispatchedMouseEvents_update [simp]:
  "dispatchedMouseEvents (s\<lparr>mToBeDispatchedMouseData := q\<rparr>) = dispatchedMouseEvents s"
  "dispatchedMouseEvents (s\<lparr>mCoalescedMouseData := m\<rparr>) = dispatchedMouseEvents s"
  by (simp_all add: dispatchedMouseEvents_def)

lemma dispatchedMouseEvents_emit:
  "dispatchedMouseEvents (emit x s) =
     dispatchedMouseEvents s @ (case mouseDispatch x of None \<Rightarrow> [] | Some y \<Rightarrow> [y])"
  by (simp add: dispatchedMouseEvents_def emit_def map_filter_append List.map_filter_def
      split: option.splits)

lemma HandleRealMouseButtonEvent_dispatched:
  "dispatchedMouseEvents (HandleRealMouseButtonEvent ev g b s) =
     dispatchedMouseEvents s @ [(ev, g, b)]"
  by (simp add: HandleRealMouseButtonEvent_def Let_def dispatchedMouseEvents_emit)

lemma HandleRealMouseButtonEvent_fields [simp]:
  "mToBeDispatchedMouseData (HandleRealMouseButtonEvent ev g b s) = mToBeDispatchedMouseData s"
  "mCoalescedMouseData (HandleRealMouseButtonEvent ev g b s) = mCoalescedMouseData s"
  "mCoalescedMouseEventFlusher (HandleRealMouseButtonEvent ev g b s) = mCoalescedMouseEventFlusher s"
  "mCoalesceMouseMoveEvents (HandleRealMouseButtonEvent ev g b s) = mCoalesceMouseMoveEvents s"
  by (simp_all add: HandleRealMouseButtonEvent_def Let_def emit_def)

lemma DispatchFront_dispatched:
  "dispatchedMouseEvents (DispatchFront d s) = dispatchedMouseEvents s @ recordEvents [d]"
  by (simp add: DispatchFront_def TakeCoalescedEvent_def recordEvents_def recordEvent_def
      List.map_filter_def HandleRealMouseButtonEvent_dispatched split: option.splits)

lemma DispatchFront_fields [simp]:
  "mToBeDispatchedMouseData (DispatchFront d s) = mToBeDispatchedMouseData s"
  "mCoalescedMouseData (DispatchFront d s) = mCoalescedMouseData s"
  "mCoalescedMouseEventFlusher (DispatchFront d s) = mCoalescedMouseEventFlusher s"
  "mCoalesceMouseMoveEvents (DispatchFront d s) = mCoalesceMouseMoveEvents s"
  by (simp_all add: DispatchFront_def split: option.splits)

lemma recordEvents_Cons: "recordEvents (d # ds) = recordEvents [d] @ recordEvents ds"
  by (simp add: recordEvents_def List.map_filter_def)

lemma recordEvents_append: "recordEvents (xs @ ys) = recordEvents xs @ recordEvents ys"
  by (simp add: recordEvents_def map_filter_append)

lemma DispatchLoop_result:
  "mToBeDispatchedMouseData (DispatchLoop s) = []
   \<and> dispatchedMouseEvents (DispatchLoop s) =
       dispatchedMouseEvents s @ recordEvents (mToBeDispatchedMouseData s)
   \<and> mCoalescedMouseData (DispatchLoop s) = mCoalescedMouseData s
   \<and> mCoalescedMouseEventFlusher (DispatchLoop s) = mCoalescedMouseEventFlusher s
   \<and> mCoalesceMouseMoveEvents (DispatchLoop s) = mCoalesceMouseMoveEvents s"
proof (induction s rule: DispatchLoop.induct)
  case (1 s)
  show ?case
  proof (cases "mToBeDispatchedMouseData s")
    case Nil
    then show ?thesis by (simp add: DispatchLoop.simps [of s] recordEvents_def List.map_filter_def)
  next
    case (Cons d rest)
    let ?t = "DispatchFront d (s\<lparr>mToBeDispatchedMouseData := rest\<rparr>)"
    have u: "DispatchLoop s = DispatchLoop ?t"
      using Cons by (simp add: DispatchLoop.simps [of s])
    have ih: "mToBeDispatchedMouseData (DispatchLoop ?t) = []
       \<and> dispatchedMouseEvents (DispatchLoop ?t) =
           dispatchedMouseEvents ?t @ recordEvents (mToBeDispatchedMouseData ?t)
       \<and> mCoalescedMouseData (DispatchLoop ?t) = mCoalescedMouseData ?t
       \<and> mCoalescedMouseEventFlusher (DispatchLoop ?t) = mCoalescedMouseEventFlusher ?t
       \<and> mCoalesceMouseMoveEvents (DispatchLoop ?t) = mCoalesceMouseMoveEvents ?t"
      using "1.IH" Cons by simp
    show ?thesis
      unfolding u using ih Cons
      by (simp add: DispatchFront_dispatched recordEvents_Cons [of d rest])
  qed
qed

lemma ProcessPending_result:
  assumes "mCoalesceMouseMoveEvents s" "mCoalescedMouseEventFlusher s"
  shows "mToBeDispatchedMouseData (ProcessPendingCoalescedMouseDataAndDispatchEvents s) = []"
    and "dispatchedMouseEvents (ProcessPendingCoalescedMouseDataAndDispatchEvents s) =
       dispatchedMouseEvents s @ recordEvents (mToBeDispatchedMouseData s)"
    and "mCoalescedMouseData (ProcessPendingCoalescedMouseDataAndDispatchEvents s) =
       mCoalescedMouseData s"
proof -
  let ?t = "emit StartObserver s"
  have t: "mToBeDispatchedMouseData ?t = mToBeDispatchedMouseData s"
    "dispatchedMouseEvents ?t = dispatchedMouseEvents s"
    "mCoalescedMouseData ?t = mCoalescedMouseData s"
    by (simp_all add: emit_def dispatchedMouseEvents_def List.map_filter_def)
  note r = DispatchLoop_result [of ?t]
  have p: "ProcessPendingCoalescedMouseDataAndDispatchEvents s =
      (if mCoalescedMouseEventFlusher (DispatchLoop ?t)
       then emit RemoveObserver (DispatchLoop ?t) else DispatchLoop ?t)"
    using assms by (simp add: ProcessPendingCoalescedMouseDataAndDispatchEvents_def Let_def)
  show "mToBeDispatchedMouseData (ProcessPendingCoalescedMouseDataAndDispatchEvents s) = []"
    unfolding p using r by (simp add: emit_def)
  show "dispatchedMouseEvents (ProcessPendingCoalescedMouseDataAndDispatchEvents s) =
       dispatchedMouseEvents s @ recordEvents (mToBeDispatchedMouseData s)"
    unfolding p using r t by (simp add: dispatchedMouseEvents_emit)
  show "mCoalescedMouseData (ProcessPendingCoalescedMouseDataAndDispatchEvents s) =
       mCoalescedMouseData s"
    unfolding p using r t by (simp add: emit_def)
qed


lemma RetrieveDataFrom_id [simp]: "RetrieveDataFrom d = d"
  by (cases d) (simp add: RetrieveDataFrom_def)

lemma FlushOne_table [simp]: "mCoalescedMouseData (FlushOne s k) = mCoalescedMouseData s"
  by (simp add: FlushOne_def split: option.splits)

lemma foldl_FlushOne:
  "foldl FlushOne s ks =
     s\<lparr>mToBeDispatchedMouseData :=
         mToBeDispatchedMouseData s @
           filter (\<lambda>d. \<not> IsEmpty d) (List.map_filter (mCoalescedMouseData s) ks)\<rparr>"
proof (induction ks arbitrary: s)
  case Nil
  show ?case by simp
next
  case (Cons k ks)
  have "foldl FlushOne s (k # ks) = foldl FlushOne (FlushOne s k) ks" by simp
  also have "\<dots> = (FlushOne s k)\<lparr>mToBeDispatchedMouseData :=
         mToBeDispatchedMouseData (FlushOne s k) @
           filter (\<lambda>d. \<not> IsEmpty d) (List.map_filter (mCoalescedMouseData s) ks)\<rparr>"
    using Cons.IH [of "FlushOne s k"] by simp
  also have "\<dots> = s\<lparr>mToBeDispatchedMouseData :=
         mToBeDispatchedMouseData s @
           filter (\<lambda>d. \<not> IsEmpty d) (List.map_filter (mCoalescedMouseData s) (k # ks))\<rparr>"
    by (cases "mCoalescedMouseData s k") (simp_all add: FlushOne_def)
  finally show ?case .
qed

lemma FlushAll_result:
  "FlushAllCoalescedMouseData ks s =
     s\<lparr>mToBeDispatchedMouseData :=
         mToBeDispatchedMouseData s @
           filter (\<lambda>d. \<not> IsEmpty d) (List.map_filter (mCoalescedMouseData s) ks),
       mCoalescedMouseData := Map.empty\<rparr>"
  by (simp add: FlushAllCoalescedMouseData_def foldl_FlushOne)

lemma recordEvents_filter_nonempty:
  "recordEvents (filter (\<lambda>d. \<not> IsEmpty d) ds) = recordEvents ds"
  by (induction ds) (simp_all add: recordEvents_def List.map_filter_def IsEmpty_def recordEvent_def)

lemma RecvRealMouseButtonEvent_flush:
  assumes "mCoalesceMouseMoveEvents s" "mCoalescedMouseEventFlusher s"
    and "mMessage ev \<noteq> eMouseMove"
  shows "RecvRealMouseButtonEvent ks ev g b s =
     (IPC_OK, ProcessPendingCoalescedMouseDataAndDispatchEvents
        (s\<lparr>mCoalescedMouseData := Map.empty,
           mToBeDispatchedMouseData :=
             mToBeDispatchedMouseData s @
               filter (\<lambda>d. \<not> IsEmpty d) (List.map_filter (mCoalescedMouseData s) ks) @
               [\<lparr>mCoalescedInputEvent = Some ev, mGuid = g, mInputBlockId = b\<rparr>]\<rparr>))"
  using assms
  by (simp add: RecvRealMouseButtonEvent_def Let_def FlushAll_result Coalesce_def
      NewCoalescedMouseData_def)

lemma RecvRealMouseButtonEvent_dispatched:
  assumes "mCoalesceMouseMoveEvents s" and "mCoalescedMouseEventFlusher s"
    and "mMessage ev \<noteq> eMouseMove"
  shows "dispatchedMouseEvents (snd (RecvRealMouseButtonEvent ks ev g b s)) =
       dispatchedMouseEvents s @ recordEvents (mToBeDispatchedMouseData s)
         @ recordEvents (List.map_filter (mCoalescedMouseData s) ks) @ [(ev, g, b)]"
proof -
  let ?q = "mToBeDispatchedMouseData s @
               filter (\<lambda>d. \<not> IsEmpty d) (List.map_filter (mCoalescedMouseData s) ks) @
               [\<lparr>mCoalescedInputEvent = Some ev, mGuid = g, mInputBlockId = b\<rparr>]"
  let ?s2 = "s\<lparr>mCoalescedMouseData := Map.empty, mToBeDispatchedMouseData := ?q\<rparr>"
  have en: "mCoalesceMouseMoveEvents ?s2" "mCoalescedMouseEventFlusher ?s2"
    using assms by simp_all
  have q: "recordEvents ?q = recordEvents (mToBeDispatchedMouseData s)
         @ recordEvents (List.map_filter (mCoalescedMouseData s) ks) @ [(ev, g, b)]"
    by (simp add: recordEvents_append recordEvents_filter_nonempty)
       (simp add: recordEvents_def recordEvent_def)
  show ?thesis
    using ProcessPending_result(2) [OF en] q
    by (simp add: RecvRealMouseButtonEvent_flush [OF assms])
qed

lemma twoPointerMoves_eq:
  "twoPointerMoves =
     openActor\<lparr>mCoalescedMouseData :=
         [1 \<mapsto> \<lparr>mCoalescedInputEvent = Some (mouseMoveAt 1 (3, 3) 10), mGuid = 0, mInputBlockId = 0\<rparr>,
          2 \<mapsto> \<lparr>mCoalescedInputEvent = Some (mouseMoveAt 2 (5, 5) 20), mGuid = 0, mInputBlockId = 0\<rparr>],
        effects := [StartObserver, StartObserver]\<rparr>"
  by (simp add: twoPointerMoves_def RecvRealMouseMoveEvent_def CanCoalesce_def Coalesce_def
      NewCoalescedMouseData_def Let_def emit_def mouseMoveAt_def
      openActor_def BrowserChild_ctor_def)

lemma twoPointerMoves_facts:
  "mCoalesceMouseMoveEvents twoPointerMoves" "mCoalescedMouseEventFlusher twoPointerMoves"
  "dispatchedMouseEvents twoPointerMoves = []" "mToBeDispatchedMouseData twoPointerMoves = []"
  "mMessage (mouseDownAt p pos t) \<noteq> eMouseMove"
  "mCoalescedMouseData twoPointerMoves 1 =
     Some \<lparr>mCoalescedInputEvent = Some (mouseMoveAt 1 (3, 3) 10), mGuid = 0, mInputBlockId = 0\<rparr>"
  "mCoalescedMouseData twoPointerMoves 2 =
     Some \<lparr>mCoalescedInputEvent = Some (mouseMoveAt 2 (5, 5) 20), mGuid = 0, mInputBlockId = 0\<rparr>"
  by (simp_all add: twoPointerMoves_eq openActor_def BrowserChild_ctor_def
      dispatchedMouseEvents_def List.map_filter_def mouseDownAt_def)


lemma compatible_moved [simp]:
  "compatible (e0\<lparr>mRefPoint := pos, mTimeStamp := t\<rparr>) x = compatible e0 x"
  by (simp add: compatible_def)





text \<open>
  C2. As stated, the claim fixes the order of the flushed moves as pointer P1
  (the pointer of the button event) first and P2 second. The code pushes the
  pending records in the order in which the hashtable iterator visits them,
  which is neither the arrival order nor tied to the pointer of the button
  event: with moves of pointer 1 and then pointer 2 pending, and the iterator
  visiting key 2 before key 1, a button event of pointer 1 is dispatched after
  the move of pointer 2 and then the move of pointer 1.
\<close>

theorem button_order_counterexample:
  "dispatchedMouseEvents
     (snd (RecvRealMouseButtonEvent [2, 1] (mouseDownAt 1 (3, 3) 30) 0 0 twoPointerMoves)) =
     [(mouseMoveAt 2 (5, 5) 20, 0, 0), (mouseMoveAt 1 (3, 3) 10, 0, 0),
      (mouseDownAt 1 (3, 3) 30, 0, 0)]
   \<and> dispatchedMouseEvents
     (snd (RecvRealMouseButtonEvent [2, 1] (mouseDownAt 1 (3, 3) 30) 0 0 twoPointerMoves)) \<noteq>
     [(mouseMoveAt 1 (3, 3) 10, 0, 0), (mouseMoveAt 2 (5, 5) 20, 0, 0),
      (mouseDownAt 1 (3, 3) 30, 0, 0)]"
proof -
  have d: "dispatchedMouseEvents
     (snd (RecvRealMouseButtonEvent [2, 1] (mouseDownAt 1 (3, 3) 30) 0 0 twoPointerMoves)) =
     [(mouseMoveAt 2 (5, 5) 20, 0, 0), (mouseMoveAt 1 (3, 3) 10, 0, 0),
      (mouseDownAt 1 (3, 3) 30, 0, 0)]"
    using RecvRealMouseButtonEvent_dispatched [OF twoPointerMoves_facts(1,2,5),
        of "[2, 1]" 1 "(3, 3)" 30 0 0]
    by (simp add: twoPointerMoves_facts recordEvents_def recordEvent_def)
  have n: "mouseMoveAt 2 (5, 5) 20 \<noteq> mouseMoveAt 1 (3, 3) 10"
    by (simp add: mouseMoveAt_def)
  from d n show ?thesis by simp
qed

text \<open>
  C2, amended. On a button (non-move) event, with coalescing on, all pending
  per-pointer records that hold an event are pushed to the back of the dispatch
  queue, in the order in which the table's iterator visits them, and the table
  is cleared; then the button event is pushed, and the queue is processed to the
  end. So content receives what was already queued, then every pending move in
  iterator order, then the button event: the button event is last, after every
  pending move, of its own pointer and of any other.
\<close>

theorem button_after_pending_moves:
  assumes "mCoalesceMouseMoveEvents s" and "mCoalescedMouseEventFlusher s"
    and "mMessage ev \<noteq> eMouseMove"
  shows "mToBeDispatchedMouseData (FlushAllCoalescedMouseData ks s) =
       mToBeDispatchedMouseData s @
         filter (\<lambda>d. \<not> IsEmpty d) (List.map_filter (mCoalescedMouseData s) ks)
   \<and> fst (RecvRealMouseButtonEvent ks ev g b s) = IPC_OK
   \<and> dispatchedMouseEvents (snd (RecvRealMouseButtonEvent ks ev g b s)) =
       dispatchedMouseEvents s @ recordEvents (mToBeDispatchedMouseData s)
         @ recordEvents (List.map_filter (mCoalescedMouseData s) ks) @ [(ev, g, b)]
   \<and> mToBeDispatchedMouseData (snd (RecvRealMouseButtonEvent ks ev g b s)) = []
   \<and> mCoalescedMouseData (snd (RecvRealMouseButtonEvent ks ev g b s)) = Map.empty
   \<and> (\<forall>p\<in>set ks. \<forall>d x. mCoalescedMouseData s p = Some d \<and> recordEvent d = Some x \<longrightarrow>
          x \<in> set (recordEvents (List.map_filter (mCoalescedMouseData s) ks)))"
proof -
  let ?q = "mToBeDispatchedMouseData s @
               filter (\<lambda>d. \<not> IsEmpty d) (List.map_filter (mCoalescedMouseData s) ks) @
               [\<lparr>mCoalescedInputEvent = Some ev, mGuid = g, mInputBlockId = b\<rparr>]"
  let ?s2 = "s\<lparr>mCoalescedMouseData := Map.empty, mToBeDispatchedMouseData := ?q\<rparr>"
  have en: "mCoalesceMouseMoveEvents ?s2" "mCoalescedMouseEventFlusher ?s2"
    using assms by simp_all
  note r = RecvRealMouseButtonEvent_flush [OF assms, of ks g b]
  note p = ProcessPending_result [OF en]
  have q: "recordEvents ?q = recordEvents (mToBeDispatchedMouseData s)
         @ recordEvents (List.map_filter (mCoalescedMouseData s) ks) @ [(ev, g, b)]"
    by (simp add: recordEvents_append recordEvents_filter_nonempty)
       (simp add: recordEvents_def recordEvent_def)
  have 1: "mToBeDispatchedMouseData (FlushAllCoalescedMouseData ks s) =
       mToBeDispatchedMouseData s @
         filter (\<lambda>d. \<not> IsEmpty d) (List.map_filter (mCoalescedMouseData s) ks)"
    by (simp add: FlushAll_result)
  have 2: "fst (RecvRealMouseButtonEvent ks ev g b s) = IPC_OK" by (simp add: r)
  have 3: "dispatchedMouseEvents (snd (RecvRealMouseButtonEvent ks ev g b s)) =
       dispatchedMouseEvents s @ recordEvents (mToBeDispatchedMouseData s)
         @ recordEvents (List.map_filter (mCoalescedMouseData s) ks) @ [(ev, g, b)]"
    using p(2) q by (simp add: r)
  have 4: "mToBeDispatchedMouseData (snd (RecvRealMouseButtonEvent ks ev g b s)) = []"
    using p(1) by (simp add: r)
  have 5: "mCoalescedMouseData (snd (RecvRealMouseButtonEvent ks ev g b s)) = Map.empty"
    using p(3) by (simp add: r)
  have 6: "\<forall>p\<in>set ks. \<forall>d x. mCoalescedMouseData s p = Some d \<and> recordEvent d = Some x \<longrightarrow>
          x \<in> set (recordEvents (List.map_filter (mCoalescedMouseData s) ks))"
    by (force simp: recordEvents_def List.map_filter_def)
  from 1 2 3 4 5 6 show ?thesis by blast
qed

theorem button_after_pending_moves_witness:
  "dispatchedMouseEvents
     (snd (RecvRealMouseButtonEvent [1, 2] (mouseDownAt 1 (3, 3) 30) 0 0 twoPointerMoves)) =
     [(mouseMoveAt 1 (3, 3) 10, 0, 0), (mouseMoveAt 2 (5, 5) 20, 0, 0),
      (mouseDownAt 1 (3, 3) 30, 0, 0)]
   \<and> mToBeDispatchedMouseData
     (snd (RecvRealMouseButtonEvent [1, 2] (mouseDownAt 1 (3, 3) 30) 0 0 twoPointerMoves)) = []"
proof -
  show ?thesis
    using button_after_pending_moves [OF twoPointerMoves_facts(1,2,5),
        of "[1, 2]" 1 "(3, 3)" 30 0 0]
    by (simp add: twoPointerMoves_facts recordEvents_def recordEvent_def)
qed

subsection \<open>Wheel coalescing\<close>

lemma dispatchedWheelEvents_DispatchWheelEvent:
  "dispatchedWheelEvents (DispatchWheelEvent ev g b s) = dispatchedWheelEvents s @ [(ev, g, b)]"
  by (simp add: DispatchWheelEvent_def dispatchedWheelEvents_def Let_def map_filter_append
      List.map_filter_def)

lemma DispatchWheelEvent_fields [simp]:
  "mCoalescedWheelData (DispatchWheelEvent ev g b s) = mCoalescedWheelData s"
  "mLastWheelProcessedTimeFromParent (DispatchWheelEvent ev g b s) =
     mLastWheelProcessedTimeFromParent s"
  "mLastWheelProcessingDuration (DispatchWheelEvent ev g b s) = mLastWheelProcessingDuration s"
  by (simp_all add: DispatchWheelEvent_def Let_def emit_def)

lemma dispatchedWheelEvents_update [simp]:
  "dispatchedWheelEvents (s\<lparr>mCoalescedWheelData := w\<rparr>) = dispatchedWheelEvents s"
  "dispatchedWheelEvents (s\<lparr>mLastWheelProcessedTimeFromParent := t\<rparr>) = dispatchedWheelEvents s"
  "dispatchedWheelEvents (s\<lparr>mLastWheelProcessingDuration := d\<rparr>) = dispatchedWheelEvents s"
  by (simp_all add: dispatchedWheelEvents_def)

lemma MaybeDispatchCoalescedWheelEvent_dispatched:
  "dispatchedWheelEvents (MaybeDispatchCoalescedWheelEvent s) =
     dispatchedWheelEvents s @
       (case wCoalescedInputEvent (mCoalescedWheelData s) of
          None \<Rightarrow> []
        | Some p \<Rightarrow> [(p, wGuid (mCoalescedWheelData s), wInputBlockId (mCoalescedWheelData s))])"
  by (simp add: MaybeDispatchCoalescedWheelEvent_def dispatchedWheelEvents_DispatchWheelEvent
      split: option.splits)

lemma MaybeDispatchCoalescedWheelEvent_fields [simp]:
  "WheelIsEmpty (mCoalescedWheelData (MaybeDispatchCoalescedWheelEvent s))"
  "mLastWheelProcessedTimeFromParent (MaybeDispatchCoalescedWheelEvent s) =
     mLastWheelProcessedTimeFromParent s"
  "mLastWheelProcessingDuration (MaybeDispatchCoalescedWheelEvent s) =
     mLastWheelProcessingDuration s"
  by (simp_all add: MaybeDispatchCoalescedWheelEvent_def WheelIsEmpty_def split: option.splits)

lemma MaybeCoalesceWheelEvent_iff:
  "fst (MaybeCoalesceWheelEvent nxt ev g b False s) \<longleftrightarrow>
     wMessage ev = eWheel \<and> nxt
     \<and> (\<exists>t. mLastWheelProcessedTimeFromParent s = Some t
             \<and> wTimeStamp ev < t + mLastWheelProcessingDuration s)
     \<and> (WheelIsEmpty (mCoalescedWheelData s)
          \<or> WheelCanCoalesce (mCoalescedWheelData s) ev g b)"
  by (auto simp: MaybeCoalesceWheelEvent_def Let_def split: option.splits)

lemma MaybeCoalesceWheelEvent_merged:
  "fst (MaybeCoalesceWheelEvent nxt ev g b False s) \<Longrightarrow>
   MaybeCoalesceWheelEvent nxt ev g b False s =
     (True, True, s\<lparr>mCoalescedWheelData := WheelCoalesce (mCoalescedWheelData s) ev g b\<rparr>)"
  by (auto simp: MaybeCoalesceWheelEvent_def Let_def split: option.splits if_splits)

lemma MaybeCoalesceWheelEvent_not_merged:
  "\<not> fst (MaybeCoalesceWheelEvent nxt ev g b False s) \<Longrightarrow>
   MaybeCoalesceWheelEvent nxt ev g b False s = (False, wMessage ev = eWheel \<and> nxt, s)"
  by (auto simp: MaybeCoalesceWheelEvent_def Let_def split: option.splits if_splits)

lemma RecvMouseWheelEvent_not_merged:
  assumes n: "\<not> fst (MaybeCoalesceWheelEvent nxt ev g b False s)"
  shows "dispatchedWheelEvents (snd (RecvMouseWheelEvent nxt t0 t1 ev g b s)) =
          dispatchedWheelEvents s @
            (case wCoalescedInputEvent (mCoalescedWheelData s) of
               None \<Rightarrow> []
             | Some p \<Rightarrow> [(p, wGuid (mCoalescedWheelData s), wInputBlockId (mCoalescedWheelData s))])
            @ [(ev, g, b)]"
    and "WheelIsEmpty (mCoalescedWheelData (snd (RecvMouseWheelEvent nxt t0 t1 ev g b s)))"
    and "if wMessage ev = eWheel \<and> nxt
            then mLastWheelProcessingDuration (snd (RecvMouseWheelEvent nxt t0 t1 ev g b s)) = t1 - t0
               \<and> mLastWheelProcessedTimeFromParent (snd (RecvMouseWheelEvent nxt t0 t1 ev g b s)) =
                   Some (wTimeStamp ev + (t1 - t0))
            else mLastWheelProcessingDuration (snd (RecvMouseWheelEvent nxt t0 t1 ev g b s)) =
                   mLastWheelProcessingDuration s
               \<and> mLastWheelProcessedTimeFromParent (snd (RecvMouseWheelEvent nxt t0 t1 ev g b s)) =
                   None"
proof -
  note m = MaybeCoalesceWheelEvent_not_merged [OF n]
  show "dispatchedWheelEvents (snd (RecvMouseWheelEvent nxt t0 t1 ev g b s)) =
          dispatchedWheelEvents s @
            (case wCoalescedInputEvent (mCoalescedWheelData s) of
               None \<Rightarrow> []
             | Some p \<Rightarrow> [(p, wGuid (mCoalescedWheelData s), wInputBlockId (mCoalescedWheelData s))])
            @ [(ev, g, b)]"
    by (simp add: RecvMouseWheelEvent_def m Let_def dispatchedWheelEvents_DispatchWheelEvent
        MaybeDispatchCoalescedWheelEvent_dispatched split: option.splits)
  show "WheelIsEmpty (mCoalescedWheelData (snd (RecvMouseWheelEvent nxt t0 t1 ev g b s)))"
    by (simp add: RecvMouseWheelEvent_def m Let_def)
  show "if wMessage ev = eWheel \<and> nxt
            then mLastWheelProcessingDuration (snd (RecvMouseWheelEvent nxt t0 t1 ev g b s)) = t1 - t0
               \<and> mLastWheelProcessedTimeFromParent (snd (RecvMouseWheelEvent nxt t0 t1 ev g b s)) =
                   Some (wTimeStamp ev + (t1 - t0))
            else mLastWheelProcessingDuration (snd (RecvMouseWheelEvent nxt t0 t1 ev g b s)) =
                   mLastWheelProcessingDuration s
               \<and> mLastWheelProcessedTimeFromParent (snd (RecvMouseWheelEvent nxt t0 t1 ev g b s)) =
                   None"
    unfolding RecvMouseWheelEvent_def m by (simp add: Let_def)
qed

text \<open>
  C5. As stated, the claim fails in its last part: an event that is not merged
  is dispatched, but the dispatch duration is recorded only in the branch taken
  when a next wheel event was seen on the channel. Here no next wheel event is
  waiting: the event is dispatched and the duration estimate stays as it was.
\<close>

theorem wheel_duration_counterexample:
  "\<not> fst (MaybeCoalesceWheelEvent False wheelTick 0 0 False openActor)
   \<and> dispatchedWheelEvents (snd (RecvMouseWheelEvent False 100 130 wheelTick 0 0 openActor)) =
       [(wheelTick, 0, 0)]
   \<and> mLastWheelProcessingDuration (snd (RecvMouseWheelEvent False 100 130 wheelTick 0 0 openActor))
       \<noteq> 130 - 100"
  by (simp add: MaybeCoalesceWheelEvent_def RecvMouseWheelEvent_def Let_def
      MaybeDispatchCoalescedWheelEvent_def DispatchWheelEvent_def emit_def
      dispatchedWheelEvents_def List.map_filter_def NewCoalescedWheelData_def
      wheelTick_def openActor_def BrowserChild_ctor_def)

text \<open>
  C5, amended. A wheel event is merged into the pending accumulator if and only
  if it is a plain wheel event, the next message waiting on the channel is a
  wheel event, the last-processed time is not null and the event's time stamp is
  earlier than that time plus the last processing duration, and the accumulator
  is empty or can coalesce the event; a merged event is only accumulated. An
  event that is not merged is dispatched after the pending accumulated event (if
  any), which empties the accumulator. When the event is a plain wheel event and
  a next wheel event is waiting, the dispatch duration is recorded and the
  last-processed time becomes the event's time stamp plus that duration;
  otherwise the duration estimate is left as it was and the last-processed time
  is reset to null.
\<close>

theorem wheel_merge_rule:
  "(fst (MaybeCoalesceWheelEvent nxt ev g b False s) \<longleftrightarrow>
      wMessage ev = eWheel \<and> nxt
      \<and> (\<exists>t. mLastWheelProcessedTimeFromParent s = Some t
              \<and> wTimeStamp ev < t + mLastWheelProcessingDuration s)
      \<and> (WheelIsEmpty (mCoalescedWheelData s)
           \<or> WheelCanCoalesce (mCoalescedWheelData s) ev g b))
   \<and> (fst (MaybeCoalesceWheelEvent nxt ev g b False s) \<longrightarrow>
        RecvMouseWheelEvent nxt t0 t1 ev g b s =
          (IPC_OK, s\<lparr>mCoalescedWheelData := WheelCoalesce (mCoalescedWheelData s) ev g b\<rparr>))
   \<and> (\<not> fst (MaybeCoalesceWheelEvent nxt ev g b False s) \<longrightarrow>
        dispatchedWheelEvents (snd (RecvMouseWheelEvent nxt t0 t1 ev g b s)) =
          dispatchedWheelEvents s @
            (case wCoalescedInputEvent (mCoalescedWheelData s) of
               None \<Rightarrow> []
             | Some p \<Rightarrow> [(p, wGuid (mCoalescedWheelData s), wInputBlockId (mCoalescedWheelData s))])
            @ [(ev, g, b)]
        \<and> WheelIsEmpty (mCoalescedWheelData (snd (RecvMouseWheelEvent nxt t0 t1 ev g b s)))
        \<and> (if wMessage ev = eWheel \<and> nxt
            then mLastWheelProcessingDuration (snd (RecvMouseWheelEvent nxt t0 t1 ev g b s)) = t1 - t0
               \<and> mLastWheelProcessedTimeFromParent (snd (RecvMouseWheelEvent nxt t0 t1 ev g b s)) =
                   Some (wTimeStamp ev + (t1 - t0))
            else mLastWheelProcessingDuration (snd (RecvMouseWheelEvent nxt t0 t1 ev g b s)) =
                   mLastWheelProcessingDuration s
               \<and> mLastWheelProcessedTimeFromParent (snd (RecvMouseWheelEvent nxt t0 t1 ev g b s)) =
                   None))"
proof -
  have merged: "fst (MaybeCoalesceWheelEvent nxt ev g b False s) \<longrightarrow>
        RecvMouseWheelEvent nxt t0 t1 ev g b s =
          (IPC_OK, s\<lparr>mCoalescedWheelData := WheelCoalesce (mCoalescedWheelData s) ev g b\<rparr>)"
    by (simp add: RecvMouseWheelEvent_def MaybeCoalesceWheelEvent_merged)
  show ?thesis
    using MaybeCoalesceWheelEvent_iff [of nxt ev g b s] merged
      RecvMouseWheelEvent_not_merged [of nxt ev g b s t0 t1]
    by blast
qed

theorem wheel_merge_rule_witness:
  "fst (MaybeCoalesceWheelEvent True wheelTick 0 0 False
          (openActor\<lparr>mLastWheelProcessedTimeFromParent := Some 40,
                     mLastWheelProcessingDuration := 20\<rparr>))
   \<and> RecvMouseWheelEvent True 100 130 wheelTick 0 0
        (openActor\<lparr>mLastWheelProcessedTimeFromParent := Some 40,
                   mLastWheelProcessingDuration := 20\<rparr>) =
       (IPC_OK, openActor\<lparr>mLastWheelProcessedTimeFromParent := Some 40,
                   mLastWheelProcessingDuration := 20,
                   mCoalescedWheelData :=
                     \<lparr>wCoalescedInputEvent = Some wheelTick, wGuid = 0, wInputBlockId = 0\<rparr>\<rparr>)
   \<and> \<not> fst (MaybeCoalesceWheelEvent True wheelTick 0 0 False openActor)
   \<and> dispatchedWheelEvents (snd (RecvMouseWheelEvent True 100 130 wheelTick 0 0 openActor)) =
       [(wheelTick, 0, 0)]
   \<and> mLastWheelProcessingDuration (snd (RecvMouseWheelEvent True 100 130 wheelTick 0 0 openActor))
       = 30
   \<and> mLastWheelProcessedTimeFromParent (snd (RecvMouseWheelEvent True 100 130 wheelTick 0 0 openActor))
       = Some 80"
proof -
  let ?busy = "openActor\<lparr>mLastWheelProcessedTimeFromParent := Some 40,
                     mLastWheelProcessingDuration := 20\<rparr>"
  have a: "wMessage wheelTick = eWheel" "wTimeStamp wheelTick = 50"
    by (simp_all add: wheelTick_def)
  have b: "mCoalescedWheelData openActor = NewCoalescedWheelData"
    "mLastWheelProcessedTimeFromParent openActor = None"
    "dispatchedWheelEvents openActor = []"
    by (simp_all add: openActor_def BrowserChild_ctor_def dispatchedWheelEvents_def
        List.map_filter_def)
  have c: "WheelIsEmpty NewCoalescedWheelData"
    "WheelCoalesce NewCoalescedWheelData wheelTick 0 0 =
       \<lparr>wCoalescedInputEvent = Some wheelTick, wGuid = 0, wInputBlockId = 0\<rparr>"
    "wCoalescedInputEvent NewCoalescedWheelData = None"
    by (simp_all add: WheelIsEmpty_def WheelCoalesce_def NewCoalescedWheelData_def)
  show ?thesis
    using wheel_merge_rule [of True wheelTick 0 0 ?busy 100 130]
      wheel_merge_rule [of True wheelTick 0 0 openActor 100 130] a b c
    by simp
qed

text \<open>
  C6. A wheel event that arrives while no next wheel event is waiting on the
  channel resets \<open>mLastWheelProcessedTimeFromParent\<close> to the null time stamp; with
  a null time stamp no event is merged, so the wheel event that follows, whatever
  it is and whatever is waiting behind it, is dispatched and not merged.
\<close>

theorem last_wheel_resets_marker:
  "(\<not> nxt \<longrightarrow>
      mLastWheelProcessedTimeFromParent (snd (RecvMouseWheelEvent nxt t0 t1 ev g b s)) = None)
   \<and> (mLastWheelProcessedTimeFromParent s = None \<longrightarrow>
        \<not> fst (MaybeCoalesceWheelEvent nxt' ev' g' b' i s))
   \<and> (\<not> nxt \<longrightarrow>
        \<not> fst (MaybeCoalesceWheelEvent nxt' ev' g' b' False
                 (snd (RecvMouseWheelEvent nxt t0 t1 ev g b s)))
        \<and> dispatchedWheelEvents
             (snd (RecvMouseWheelEvent nxt' t0' t1' ev' g' b'
                     (snd (RecvMouseWheelEvent nxt t0 t1 ev g b s)))) =
            dispatchedWheelEvents (snd (RecvMouseWheelEvent nxt t0 t1 ev g b s)) @ [(ev', g', b')])"
proof -
  have none: "\<And>u n e1 g1 b1 j. mLastWheelProcessedTimeFromParent u = None \<Longrightarrow>
      \<not> fst (MaybeCoalesceWheelEvent n e1 g1 b1 j u)"
    by (simp add: MaybeCoalesceWheelEvent_def Let_def)
  have reset: "\<not> nxt \<Longrightarrow>
      mLastWheelProcessedTimeFromParent (snd (RecvMouseWheelEvent nxt t0 t1 ev g b s)) = None"
  proof -
    assume n: "\<not> nxt"
    have "\<not> fst (MaybeCoalesceWheelEvent nxt ev g b False s)"
      using n by (simp add: MaybeCoalesceWheelEvent_iff)
    then show ?thesis
      using RecvMouseWheelEvent_not_merged(3) [of nxt ev g b s t0 t1] n by simp
  qed
  have disp: "\<not> nxt \<Longrightarrow> dispatchedWheelEvents
             (snd (RecvMouseWheelEvent nxt' t0' t1' ev' g' b'
                     (snd (RecvMouseWheelEvent nxt t0 t1 ev g b s)))) =
            dispatchedWheelEvents (snd (RecvMouseWheelEvent nxt t0 t1 ev g b s)) @ [(ev', g', b')]"
  proof -
    assume n: "\<not> nxt"
    let ?u = "snd (RecvMouseWheelEvent nxt t0 t1 ev g b s)"
    have "\<not> fst (MaybeCoalesceWheelEvent nxt ev g b False s)"
      using n by (simp add: MaybeCoalesceWheelEvent_iff)
    then have e: "WheelIsEmpty (mCoalescedWheelData ?u)"
      using RecvMouseWheelEvent_not_merged(2) [of nxt ev g b s t0 t1] by simp
    have "\<not> fst (MaybeCoalesceWheelEvent nxt' ev' g' b' False ?u)"
      using none reset [OF n] by blast
    then show ?thesis
      using RecvMouseWheelEvent_not_merged(1) [of nxt' ev' g' b' ?u t0' t1'] e
      by (simp add: WheelIsEmpty_def)
  qed
  from none reset disp show ?thesis by blast
qed

theorem last_wheel_resets_marker_witness:
  "mLastWheelProcessedTimeFromParent
     (snd (RecvMouseWheelEvent False 100 130 wheelTick 0 0
             (openActor\<lparr>mLastWheelProcessedTimeFromParent := Some 40,
                        mLastWheelProcessingDuration := 20\<rparr>))) = None
   \<and> \<not> fst (MaybeCoalesceWheelEvent True wheelTick 0 0 False
              (snd (RecvMouseWheelEvent False 100 130 wheelTick 0 0
                 (openActor\<lparr>mLastWheelProcessedTimeFromParent := Some 40,
                            mLastWheelProcessingDuration := 20\<rparr>))))
   \<and> dispatchedWheelEvents
        (snd (RecvMouseWheelEvent True 140 150 wheelTick 0 0
           (snd (RecvMouseWheelEvent False 100 130 wheelTick 0 0
              (openActor\<lparr>mLastWheelProcessedTimeFromParent := Some 40,
                         mLastWheelProcessingDuration := 20\<rparr>))))) =
       [(wheelTick, 0, 0), (wheelTick, 0, 0)]"
proof -
  let ?busy = "openActor\<lparr>mLastWheelProcessedTimeFromParent := Some 40,
                     mLastWheelProcessingDuration := 20\<rparr>"
  have d: "dispatchedWheelEvents (snd (RecvMouseWheelEvent False 100 130 wheelTick 0 0 ?busy)) =
      [(wheelTick, 0, 0)]"
    by (simp add: MaybeCoalesceWheelEvent_def RecvMouseWheelEvent_def Let_def
      MaybeDispatchCoalescedWheelEvent_def DispatchWheelEvent_def emit_def
      dispatchedWheelEvents_def List.map_filter_def NewCoalescedWheelData_def
      wheelTick_def openActor_def BrowserChild_ctor_def)
  show ?thesis
    using last_wheel_resets_marker [of False 100 130 wheelTick 0 0 ?busy True wheelTick 0 0
        False 140 150] d
    by simp
qed

subsection \<open>Teardown\<close>

lemma RecvDestroy_Inr:
  assumes "RecvDestroy e s = Inr (res, s1, r0)"
  shows "mDestroyed s1 \<and> r0 = DelayedDeleteRunnable_ctor
     \<and> channelCloses s1 = channelCloses s
     \<and> dispatchedRunnables s1 = dispatchedRunnables s @ [PRIORITY_NORMAL]
     \<and> (mIPCOpen s1 \<longrightarrow> mIPCOpen s)"
proof -
  let ?s1 = "emit PermissionRequestsDestroy (s\<lparr>mDestroyed := True\<rparr>)"
  let ?s2 = "if mBrowserChildMessageManager ?s1 then emit DispatchUnloadEvent ?s1 else ?s1"
  let ?s3 = "emit RemoveBeforeFirstPaintObserver ?s2"
  have n1: "\<not> (debugBuild e \<and> mDestroyed s)"
    using assms by (cases "debugBuild e \<and> mDestroyed s") (simp_all add: RecvDestroy_def)
  have n2: "\<not> (mBrowserChildMessageManager ?s1 \<and> debugBuild e \<and> \<not> isSafeToRunScript e)"
    using assms n1
    by (cases "mBrowserChildMessageManager ?s1 \<and> debugBuild e \<and> \<not> isSafeToRunScript e")
       (simp_all add: RecvDestroy_def Let_def)
  have u: "RecvDestroy e s =
     (case DestroyWindow e ?s3 of
        Inl f \<Rightarrow> Inl f
      | Inr s4 \<Rightarrow>
          Inr (IPC_OK,
               NS_DispatchToCurrentThread DelayedDeleteRunnable_ctor s4,
               DelayedDeleteRunnable_ctor))"
    using n1 n2 unfolding RecvDestroy_def Let_def by (simp only: if_False)
  obtain s4 where w: "DestroyWindow e ?s3 = Inr s4"
    and r: "s1 = NS_DispatchToCurrentThread DelayedDeleteRunnable_ctor s4"
       "r0 = DelayedDeleteRunnable_ctor"
    using assms unfolding u by (cases "DestroyWindow e ?s3") auto
  have q: "quiet ?s3 s4" using w by (rule quiet_DestroyWindow)
  have 3: "mDestroyed ?s3 \<and> channelCloses ?s3 = channelCloses s
      \<and> dispatchedRunnables ?s3 = dispatchedRunnables s \<and> (mIPCOpen ?s3 \<longrightarrow> mIPCOpen s)"
    by (simp add: emit_def channelCloses_def dispatchedRunnables_def List.map_filter_def)
  show ?thesis
    using q 3 r
    by (simp add: quiet_def NS_DispatchToCurrentThread_def GetPriority_def emit_def
        DelayedDeleteRunnable_ctor_def
        channelCloses_def dispatchedRunnables_def List.map_filter_def)
qed

lemma RecvDestroy_openActor:
  "RecvDestroy contentProcess openActor = Inr (IPC_OK, destroyedActor, DelayedDeleteRunnable_ctor)"
  by (simp add: RecvDestroy_def DestroyWindow_def Let_def NS_DispatchToCurrentThread_def
      GetPriority_def DelayedDeleteRunnable_ctor_def emit_def
      destroyedActor_def openActor_def BrowserChild_ctor_def contentProcess_def)

lemma RecvDestroy_openActor_middleman:
  "RecvDestroy middlemanProcess openActor = Inr (IPC_OK, destroyedActor, DelayedDeleteRunnable_ctor)"
  by (simp add: RecvDestroy_def DestroyWindow_def Let_def NS_DispatchToCurrentThread_def
      GetPriority_def DelayedDeleteRunnable_ctor_def emit_def middlemanProcess_def
      destroyedActor_def openActor_def BrowserChild_ctor_def contentProcess_def)

lemma first_Run:
  "DelayedDeleteRunnable_Run e DelayedDeleteRunnable_ctor s =
     Inr (\<lparr>mBrowserChild = True, mReadyToDelete = True\<rparr>,
          emit (DispatchToCurrentThread PRIORITY_INPUT) s)"
  by (simp add: DelayedDeleteRunnable_Run_def DelayedDeleteRunnable_ctor_def Let_def
      NS_DispatchToCurrentThread_def GetPriority_def)

lemma second_Run:
  "DelayedDeleteRunnable_Run e \<lparr>mBrowserChild = True, mReadyToDelete = True\<rparr> s =
     Inr (\<lparr>mBrowserChild = False, mReadyToDelete = True\<rparr>,
          if mIPCOpen s \<and> \<not> isMiddlemanWithRecordingChild e then emit Send_delete s else s)"
  by (simp add: DelayedDeleteRunnable_Run_def Let_def)

text \<open>
  C8. In a debug build a \<^verbatim>\<open>Destroy\<close> received by an actor whose \<open>mDestroyed\<close> flag
  is set fails the assertion \<^verbatim>\<open>MOZ_ASSERT(mDestroyed == false)\<close> at the start of
  \<^verbatim>\<open>RecvDestroy\<close>; the flag is set by the first \<^verbatim>\<open>Destroy\<close> and no later message
  clears it, so a second \<^verbatim>\<open>Destroy\<close>, whatever was delivered in between, is not
  ignored but aborts.
\<close>

theorem second_Destroy_asserts:
  assumes "debugBuild e"
  shows "(mDestroyed s \<longrightarrow> RecvDestroy e s = Inl (AssertionFailed ''mDestroyed == false''))
    \<and> (RecvDestroy e s = Inr (res, s1, r0) \<and> deliver e ms s1 = Inr s2 \<longrightarrow>
         RecvDestroy e s2 = Inl (AssertionFailed ''mDestroyed == false''))"
proof (intro conjI impI)
  assume "mDestroyed s"
  with assms show "RecvDestroy e s = Inl (AssertionFailed ''mDestroyed == false'')"
    by (simp add: RecvDestroy_def)
next
  assume h: "RecvDestroy e s = Inr (res, s1, r0) \<and> deliver e ms s1 = Inr s2"
  then have "mDestroyed s1" using RecvDestroy_Inr by blast
  moreover have "quiet s1 s2" using h quiet_deliver by blast
  ultimately have "mDestroyed s2" by (simp add: quiet_def)
  with assms show "RecvDestroy e s2 = Inl (AssertionFailed ''mDestroyed == false'')"
    by (simp add: RecvDestroy_def)
qed

theorem second_Destroy_asserts_witness:
  "debugBuild contentProcess
   \<and> RecvDestroy contentProcess openActor =
        Inr (IPC_OK, destroyedActor, DelayedDeleteRunnable_ctor)
   \<and> RecvDestroy contentProcess destroyedActor = Inl (AssertionFailed ''mDestroyed == false'')"
proof -
  have d: "debugBuild contentProcess" by (simp add: contentProcess_def)
  have n: "deliver contentProcess [] destroyedActor = Inr destroyedActor" by simp
  show ?thesis
    using second_Destroy_asserts [OF d, of openActor IPC_OK destroyedActor
        DelayedDeleteRunnable_ctor "[]" destroyedActor]
      RecvDestroy_openActor d n
    by blast
qed

text \<open>
  C7. As stated (exactly one channel close whenever the channel is open at the
  final attempt) the claim fails in a record/replay middleman with a recording
  child: the second run is guarded by
  \<^verbatim>\<open>!recordreplay::parent::IsMiddlemanWithRecordingChild()\<close> and sends nothing,
  although the channel is open.
\<close>

theorem teardown_middleman_counterexample:
  "teardown middlemanProcess [] [] openActor =
     Inr (\<lparr>mBrowserChild = False, mReadyToDelete = True\<rparr>, bouncedActor)
   \<and> mIPCOpen bouncedActor
   \<and> channelCloses bouncedActor = 0"
proof -
  have o: "mIPCOpen bouncedActor" "isMiddlemanWithRecordingChild middlemanProcess"
    by (simp_all add: bouncedActor_def destroyedActor_def openActor_def emit_def
        middlemanProcess_def)
  have t: "teardown middlemanProcess [] [] openActor =
     Inr (\<lparr>mBrowserChild = False, mReadyToDelete = True\<rparr>, bouncedActor)"
    using o
    by (simp add: teardown_def RecvDestroy_openActor_middleman first_Run second_Run
        bouncedActor_def [symmetric])
  have c: "channelCloses bouncedActor = 0"
    by (simp add: channelCloses_def bouncedActor_def destroyedActor_def emit_def)
  from t o c show ?thesis by blast
qed

text \<open>
  C7, amended. After \<^verbatim>\<open>Destroy\<close> the delete runnable is dispatched twice, first at
  normal priority by \<^verbatim>\<open>RecvDestroy\<close>, then once more by its own first run at input
  priority, and never again. Whatever messages (other than \<^verbatim>\<open>Destroy\<close>) are
  delivered before the first run and between the two runs, no channel close is
  sent before the second run, and the second run sends exactly one when the
  channel is then open and the process is not a middleman with a recording
  child; otherwise it sends none, and returns normally. The runnable then lets
  go of the actor.
\<close>

theorem teardown_closes_once:
  assumes "RecvDestroy e s = Inr (res, s1, r0)"
    and "deliver e ahead s1 = Inr s2"
    and "DelayedDeleteRunnable_Run e r0 s2 = Inr (r1, s3)"
    and "deliver e between s3 = Inr s4"
    and "DelayedDeleteRunnable_Run e r1 s4 = Inr (r2, s5)"
  shows "dispatchedRunnables s1 = dispatchedRunnables s @ [PRIORITY_NORMAL]
     \<and> dispatchedRunnables s3 = dispatchedRunnables s @ [PRIORITY_NORMAL, PRIORITY_INPUT]
     \<and> dispatchedRunnables s5 = dispatchedRunnables s @ [PRIORITY_NORMAL, PRIORITY_INPUT]
     \<and> channelCloses s4 = channelCloses s
     \<and> channelCloses s5 =
         channelCloses s + (if mIPCOpen s4 \<and> \<not> isMiddlemanWithRecordingChild e then 1 else 0)
     \<and> \<not> mBrowserChild r2"
proof -
  note d = RecvDestroy_Inr [OF assms(1)]
  have q12: "quiet s1 s2" using assms(2) by (rule quiet_deliver)
  have r0: "r0 = DelayedDeleteRunnable_ctor" using d by simp
  have run1: "r1 = \<lparr>mBrowserChild = True, mReadyToDelete = True\<rparr>"
    "s3 = emit (DispatchToCurrentThread PRIORITY_INPUT) s2"
    using assms(3) r0
    by (auto simp: DelayedDeleteRunnable_Run_def Let_def NS_DispatchToCurrentThread_def
        GetPriority_def DelayedDeleteRunnable_ctor_def split: if_splits)
  have q34: "quiet s3 s4" using assms(4) by (rule quiet_deliver)
  have run2: "r2 = \<lparr>mBrowserChild = False, mReadyToDelete = True\<rparr>"
    "s5 = (if mIPCOpen s4 \<and> \<not> isMiddlemanWithRecordingChild e then emit Send_delete s4 else s4)"
    using assms(5) run1(1)
    by (auto simp: DelayedDeleteRunnable_Run_def Let_def split: if_splits)
  have c3: "channelCloses s3 = channelCloses s2"
    "dispatchedRunnables s3 = dispatchedRunnables s2 @ [PRIORITY_INPUT]"
    using run1(2)
    by (simp_all add: emit_def channelCloses_def dispatchedRunnables_def List.map_filter_def)
  have c5: "channelCloses s5 =
         channelCloses s4 + (if mIPCOpen s4 \<and> \<not> isMiddlemanWithRecordingChild e then 1 else 0)"
    "dispatchedRunnables s5 = dispatchedRunnables s4"
    using run2(2)
    by (simp_all add: emit_def channelCloses_def dispatchedRunnables_def List.map_filter_def)
  show ?thesis
    using d q12 q34 c3 c5 run2(1) by (simp add: quiet_def)
qed

theorem teardown_closes_once_witness:
  "RecvDestroy contentProcess openActor =
     Inr (IPC_OK, destroyedActor, DelayedDeleteRunnable_ctor)
   \<and> deliver contentProcess [SetDocShellIsActive True] destroyedActor =
       Inr (emit (DocShellSetIsActive True) destroyedActor)
   \<and> dispatchedRunnables
       (emit Send_delete (emit (DispatchToCurrentThread PRIORITY_INPUT)
          (emit (DocShellSetIsActive True) destroyedActor))) =
       [PRIORITY_NORMAL, PRIORITY_INPUT]
   \<and> channelCloses
       (emit Send_delete (emit (DispatchToCurrentThread PRIORITY_INPUT)
          (emit (DocShellSetIsActive True) destroyedActor))) = 1"
proof -
  let ?s2 = "emit (DocShellSetIsActive True) destroyedActor"
  let ?s3 = "emit (DispatchToCurrentThread PRIORITY_INPUT) ?s2"
  have h2: "deliver contentProcess [SetDocShellIsActive True] destroyedActor = Inr ?s2"
    by (simp add: RecvSetDocShellIsActive_def InternalSetDocShellIsActive_def
        destroyedActor_def openActor_def BrowserChild_ctor_def contentProcess_def)
  have h3: "DelayedDeleteRunnable_Run contentProcess DelayedDeleteRunnable_ctor ?s2 =
      Inr (\<lparr>mBrowserChild = True, mReadyToDelete = True\<rparr>, ?s3)"
    by (rule first_Run)
  have h4: "deliver contentProcess [] ?s3 = Inr ?s3" by simp
  have o: "mIPCOpen ?s3" "\<not> isMiddlemanWithRecordingChild contentProcess"
    by (simp_all add: destroyedActor_def openActor_def contentProcess_def)
  have h5: "DelayedDeleteRunnable_Run contentProcess
       \<lparr>mBrowserChild = True, mReadyToDelete = True\<rparr> ?s3 =
      Inr (\<lparr>mBrowserChild = False, mReadyToDelete = True\<rparr>, emit Send_delete ?s3)"
    using o by (simp add: second_Run)
  have z: "dispatchedRunnables openActor = []" "channelCloses openActor = 0"
    by (simp_all add: dispatchedRunnables_def channelCloses_def openActor_def
        BrowserChild_ctor_def List.map_filter_def)
  show ?thesis
    using teardown_closes_once [OF RecvDestroy_openActor h2 h3 h4 h5] h2 o z
      RecvDestroy_openActor
    by simp
qed

subsection \<open>The registry\<close>

text \<open>
  A lookup made after \<^verbatim>\<open>DestroyWindow\<close> has removed the actor's entry finds nothing
  under the layers id the actor had.
\<close>

lemma map_of_RegistryRemove: "map_of (RegistryRemove k table) k = None"
  by (induction table) (auto simp: RegistryRemove_def)

lemma GetFrom_after_DestroyWindow:
  assumes "DestroyWindow e s = Inr s'" and "mLayersId s \<noteq> 0"
  shows "GetFrom (mLayersId s) s' = None"
  using assms
  by (auto simp: DestroyWindow_def GetFrom_def Let_def emit_def map_of_RegistryRemove
      split: option.splits if_splits)

end
